theory Spec2Isabelle
  imports Main "HOL-Library.Sublist" "HOL-Library.Word"
begin

section \<open>JavaScript strings and regular-expression character classes\<close>

text \<open>
  Text is modelled as \<^typ>\<open>string\<close>, a list of code units below 256. On that range the
  regular-expression class \<^verbatim>\<open>\s\<close> (and \<^verbatim>\<open>String.prototype.trim\<close>) covers tab, line feed,
  vertical tab, form feed, carriage return, space and no-break space; the line terminators
  that the \<^verbatim>\<open>m\<close> flag lets \<^verbatim>\<open>^\<close> match after are line feed and carriage return.
\<close>

abbreviation NL :: char where "NL \<equiv> CHR 0x0A"
abbreviation SQ :: char where "SQ \<equiv> CHR 0x27"
abbreviation DQ :: char where "DQ \<equiv> CHR 0x22"
abbreviation SLASH :: char where "SLASH \<equiv> CHR 0x2F"
abbreviation BSLASH :: char where "BSLASH \<equiv> CHR 0x5C"

definition is_space :: "char \<Rightarrow> bool" where
  "is_space c = (of_char c \<in> {9, 10, 11, 12, 13, 32, 160 :: nat})"

definition is_line_terminator :: "char \<Rightarrow> bool" where
  "is_line_terminator c = (of_char c \<in> {10, 13 :: nat})"

definition in_range :: "char \<Rightarrow> char \<Rightarrow> char \<Rightarrow> bool" where
  "in_range lo hi c = ((of_char lo :: nat) \<le> of_char c \<and> (of_char c :: nat) \<le> of_char hi)"

text \<open>\<^verbatim>\<open>[a-z_]\<close>, \<^verbatim>\<open>[a-z0-9_]\<close>, \<^verbatim>\<open>[A-Z_]\<close> and \<^verbatim>\<open>[A-Z0-9_]\<close>.\<close>

definition lc_first :: "char \<Rightarrow> bool" where
  "lc_first c = (in_range CHR ''a'' CHR ''z'' c \<or> c = CHR ''_'')"

definition lc_rest :: "char \<Rightarrow> bool" where
  "lc_rest c = (in_range CHR ''a'' CHR ''z'' c \<or> in_range CHR ''0'' CHR ''9'' c \<or> c = CHR ''_'')"

definition uc_first :: "char \<Rightarrow> bool" where
  "uc_first c = (in_range CHR ''A'' CHR ''Z'' c \<or> c = CHR ''_'')"

definition uc_rest :: "char \<Rightarrow> bool" where
  "uc_rest c = (in_range CHR ''A'' CHR ''Z'' c \<or> in_range CHR ''0'' CHR ''9'' c \<or> c = CHR ''_'')"

text \<open>\<^verbatim>\<open>String.prototype.trim\<close>: white space is removed at both ends.\<close>

definition trim :: "string \<Rightarrow> string" where
  "trim s = rev (dropWhile is_space (rev (dropWhile is_space s)))"

section \<open>Cache keys: \<^verbatim>\<open>JSON.stringify\<close> and SHA-256\<close>

text \<open>
  The values that the stages serialise: strings, arrays and objects. An object is the
  list of its fields in insertion order, which is the order \<^verbatim>\<open>JSON.stringify\<close> writes them
  in (field names are not array indices, and no name occurs twice).
\<close>

datatype json = JString string | JArray "json list" | JObject "(string \<times> json) list"

definition hex_digit :: "nat \<Rightarrow> char" where
  "hex_digit n = ''0123456789abcdef'' ! (n mod 16)"

text \<open>\<^verbatim>\<open>QuoteJSONString\<close> of ECMAScript, on code units below 256.\<close>

definition quote_char :: "char \<Rightarrow> string" where
  "quote_char c =
     (let n = of_char c :: nat in
      if n = 8 then [BSLASH, CHR ''b'']
      else if n = 9 then [BSLASH, CHR ''t'']
      else if n = 10 then [BSLASH, CHR ''n'']
      else if n = 12 then [BSLASH, CHR ''f'']
      else if n = 13 then [BSLASH, CHR ''r'']
      else if n = 34 then [BSLASH, DQ]
      else if n = 92 then [BSLASH, BSLASH]
      else if n < 32 then
        [BSLASH, CHR ''u'', CHR ''0'', CHR ''0'', hex_digit (n div 16), hex_digit (n mod 16)]
      else [c])"

definition QuoteJSONString :: "string \<Rightarrow> string" where
  "QuoteJSONString s = [DQ] @ concat (map quote_char s) @ [DQ]"

text \<open>\<^verbatim>\<open>Array.prototype.join\<close>.\<close>

fun join :: "string \<Rightarrow> string list \<Rightarrow> string" where
  "join sep [] = []"
| "join sep [x] = x"
| "join sep (x # y # ys) = x @ sep @ join sep (y # ys)"

text \<open>\<^verbatim>\<open>JSON.stringify(value)\<close>: no white space, fields in insertion order.\<close>

fun JSON_stringify :: "json \<Rightarrow> string" where
  "JSON_stringify (JString s) = QuoteJSONString s"
| "JSON_stringify (JArray xs) = ''['' @ join '','' (map JSON_stringify xs) @ '']''"
| "JSON_stringify (JObject kvs) =
     ''{'' @ join '','' (map (\<lambda>(k, v). QuoteJSONString k @ '':'' @ JSON_stringify v) kvs) @ ''}''"

text \<open>\<^verbatim>\<open>JSON.stringify(value, null, 2)\<close>: one element or field per line, indented by two more
  spaces per level; an empty array or object stays on one line.\<close>

fun JSON_stringify_indent :: "nat \<Rightarrow> json \<Rightarrow> string" where
  "JSON_stringify_indent ind (JString s) = QuoteJSONString s"
| "JSON_stringify_indent ind (JArray xs) =
     (if xs = [] then ''[]''
      else ''['' @ [NL] @
           join ('','' @ [NL])
             (map (\<lambda>x. replicate (ind + 2) CHR '' '' @ JSON_stringify_indent (ind + 2) x) xs) @
           [NL] @ replicate ind CHR '' '' @ '']'')"
| "JSON_stringify_indent ind (JObject kvs) =
     (if kvs = [] then ''{}''
      else ''{'' @ [NL] @
           join ('','' @ [NL])
             (map (\<lambda>(k, v). replicate (ind + 2) CHR '' '' @ QuoteJSONString k @ '': '' @
                     JSON_stringify_indent (ind + 2) v) kvs) @
           [NL] @ replicate ind CHR '' '' @ ''}'')"

text \<open>\<^verbatim>\<open>hash.update(string)\<close> hashes the UTF-8 encoding of the string.\<close>

definition utf8 :: "string \<Rightarrow> nat list" where
  "utf8 s = concat (map (\<lambda>c. let n = of_char c :: nat in
                                  if n < 128 then [n] else [192 + n div 64, 128 + n mod 64]) s)"

subsection \<open>SHA-256 (FIPS 180-4) on 32-bit words kept as natural numbers\<close>

unbundle bit_operations_syntax

definition add32 :: "nat \<Rightarrow> nat \<Rightarrow> nat" where
  "add32 a b = (a + b) mod 4294967296"

definition rotr :: "nat \<Rightarrow> nat \<Rightarrow> nat" where
  "rotr n x = x div 2 ^ n + (x mod 2 ^ n) * 2 ^ (32 - n)"

definition shr :: "nat \<Rightarrow> nat \<Rightarrow> nat" where
  "shr n x = x div 2 ^ n"

definition not32 :: "nat \<Rightarrow> nat" where
  "not32 x = 4294967295 - x"

definition Ch :: "nat \<Rightarrow> nat \<Rightarrow> nat \<Rightarrow> nat" where
  "Ch x y z = (x AND y) XOR (not32 x AND z)"

definition Maj :: "nat \<Rightarrow> nat \<Rightarrow> nat \<Rightarrow> nat" where
  "Maj x y z = (x AND y) XOR (x AND z) XOR (y AND z)"

definition bsig0 :: "nat \<Rightarrow> nat" where
  "bsig0 x = rotr 2 x XOR rotr 13 x XOR rotr 22 x"

definition bsig1 :: "nat \<Rightarrow> nat" where
  "bsig1 x = rotr 6 x XOR rotr 11 x XOR rotr 25 x"

definition ssig0 :: "nat \<Rightarrow> nat" where
  "ssig0 x = rotr 7 x XOR rotr 18 x XOR shr 3 x"

definition ssig1 :: "nat \<Rightarrow> nat" where
  "ssig1 x = rotr 17 x XOR rotr 19 x XOR shr 10 x"

text \<open>The round constants (the first 32 bits of the fractional parts of the cube roots of
  the first 64 primes) and the initial hash value (of the square roots of the first 8
  primes), in decimal.\<close>

definition K256 :: "nat list" where
  "K256 =
    [1116352408, 1899447441, 3049323471, 3921009573, 961987163, 1508970993,
     2453635748, 2870763221, 3624381080, 310598401, 607225278, 1426881987,
     1925078388, 2162078206, 2614888103, 3248222580, 3835390401, 4022224774,
     264347078, 604807628, 770255983, 1249150122, 1555081692, 1996064986,
     2554220882, 2821834349, 2952996808, 3210313671, 3336571891, 3584528711,
     113926993, 338241895, 666307205, 773529912, 1294757372, 1396182291,
     1695183700, 1986661051, 2177026350, 2456956037, 2730485921, 2820302411,
     3259730800, 3345764771, 3516065817, 3600352804, 4094571909, 275423344,
     430227734, 506948616, 659060556, 883997877, 958139571, 1322822218,
     1537002063, 1747873779, 1955562222, 2024104815, 2227730452, 2361852424,
     2428436474, 2756734187, 3204031479, 3329325298]"

definition H256 :: "nat list" where
  "H256 =
    [1779033703, 3144134277, 1013904242, 2773480762,
     1359893119, 2600822924, 528734635, 1541459225]"

text \<open>The next word of the message schedule, from the window of the last sixteen.\<close>

definition next_w :: "nat \<Rightarrow> nat \<Rightarrow> nat \<Rightarrow> nat \<Rightarrow> nat" where
  "next_w w0 w1 w9 w14 = add32 (add32 (add32 (ssig1 w14) w9) (ssig0 w1)) w0"

definition T1 :: "nat \<Rightarrow> nat \<Rightarrow> nat \<Rightarrow> nat \<Rightarrow> nat \<Rightarrow> nat \<Rightarrow> nat" where
  "T1 e f g h k w = add32 (add32 (add32 (add32 h (bsig1 e)) (Ch e f g)) k) w"

definition T2 :: "nat \<Rightarrow> nat \<Rightarrow> nat \<Rightarrow> nat" where
  "T2 a b c = add32 (bsig0 a) (Maj a b c)"

definition shift_state :: "nat \<Rightarrow> nat \<Rightarrow> nat list \<Rightarrow> nat list" where
  "shift_state t1 t2 st =
     (case st of
        [a, b, c, d, e, f, g, h] \<Rightarrow> [add32 t1 t2, a, b, c, add32 d t1, e, f, g]
      | _ \<Rightarrow> st)"

text \<open>One round per constant of \<open>K256\<close>; the third argument is the window
  \<open>W\<^sub>t, \<dots>, W\<^sub>t\<^sub>+\<^sub>1\<^sub>5\<close> of the message schedule.\<close>

fun rounds :: "nat list \<Rightarrow> nat list \<Rightarrow> nat list \<Rightarrow> nat list" where
  "rounds [a, b, c, d, e, f, g, h] (k # ks)
      [w0, w1, w2, w3, w4, w5, w6, w7, w8, w9, w10, w11, w12, w13, w14, w15] =
     rounds (shift_state (T1 e f g h k w0) (T2 a b c) [a, b, c, d, e, f, g, h]) ks
       [w1, w2, w3, w4, w5, w6, w7, w8, w9, w10, w11, w12, w13, w14, w15, next_w w0 w1 w9 w14]"
| "rounds st _ _ = st"

definition compress :: "nat list \<Rightarrow> nat list \<Rightarrow> nat list" where
  "compress hs block = map2 add32 hs (rounds hs K256 block)"

text \<open>Padding: the byte \<open>0x80\<close>, zeros up to 56 modulo 64, the bit length in eight bytes.\<close>

definition pad :: "nat list \<Rightarrow> nat list" where
  "pad bs =
     bs @ [128] @ replicate ((119 - length bs mod 64) mod 64) 0 @
     map (\<lambda>i. (8 * length bs) div 256 ^ (7 - i) mod 256) [0..<8]"

fun be32 :: "nat list \<Rightarrow> nat list" where
  "be32 (a # b # c # d # bs) = (((a * 256 + b) * 256 + c) * 256 + d) # be32 bs"
| "be32 _ = []"

fun blocks :: "nat list \<Rightarrow> nat list \<Rightarrow> nat list" where
  "blocks hs (w0 # w1 # w2 # w3 # w4 # w5 # w6 # w7 # w8 # w9 # w10 # w11 # w12 # w13 # w14 #
       w15 # ws) =
     blocks (compress hs [w0, w1, w2, w3, w4, w5, w6, w7, w8, w9, w10, w11, w12, w13, w14, w15]) ws"
| "blocks hs _ = hs"

definition sha256 :: "nat list \<Rightarrow> nat list" where
  "sha256 bs = blocks H256 (be32 (pad bs))"

text \<open>\<^verbatim>\<open>digest('hex')\<close>: eight lower-case hexadecimal digits per word.\<close>

definition hex32 :: "nat \<Rightarrow> string" where
  "hex32 w = map (\<lambda>i. hex_digit (w div 16 ^ (7 - i))) [0..<8]"

definition hex :: "nat list \<Rightarrow> string" where
  "hex ws = concat (map hex32 ws)"

text \<open>
  \<^verbatim>\<open>getCacheKey(type, input)\<close>: the two \<^verbatim>\<open>update\<close> calls hash the type followed by the
  serialised input.
\<close>

definition getCacheKey :: "string \<Rightarrow> json \<Rightarrow> string" where
  "getCacheKey type input = hex (sha256 (utf8 type @ utf8 (JSON_stringify input)))"

section \<open>The process, the world around it and the cache store\<close>

text \<open>
  What the process is started with: the environment variables, the working directory, the
  directory of the module, and the module variable \<^verbatim>\<open>GLOBAL_SAMPLE\<close> that \<^verbatim>\<open>main\<close> sets from
  \<^verbatim>\<open>--sample\<close>.
\<close>

record ctx =
  process_env :: "string \<rightharpoonup> string"
  cwd :: string
  module_dir :: string
  GLOBAL_SAMPLE :: string

text \<open>
  Paths are names of files: two paths are the same file exactly when they are the same
  string. \<^verbatim>\<open>path.join\<close> (of the platform library, in its POSIX form) leaves out the empty
  arguments, puts a slash between the others and normalises the result: empty segments and
  \<^verbatim>\<open>.\<close> segments are dropped, a \<^verbatim>\<open>..\<close> segment takes away the segment before it (and stays
  when there is none to take and the path is relative), a trailing slash is kept, and the
  empty path is \<^verbatim>\<open>.\<close>.
\<close>

fun split_path :: "string \<Rightarrow> string \<Rightarrow> string list" where
  "split_path seg [] = [seg]"
| "split_path seg (c # cs) =
     (if c = CHR ''/'' then seg # split_path [] cs else split_path (seg @ [c]) cs)"

definition normalize_step :: "bool \<Rightarrow> string list \<Rightarrow> string \<Rightarrow> string list" where
  "normalize_step allowAboveRoot res seg =
     (if seg = [] \<or> seg = ''.'' then res
      else if seg = ''..'' then
        (if res \<noteq> [] \<and> last res \<noteq> ''..'' then butlast res
         else if allowAboveRoot then res @ [''..''] else res)
      else res @ [seg])"

fun join_segments :: "string list \<Rightarrow> string" where
  "join_segments [] = []"
| "join_segments [x] = x"
| "join_segments (x # y # ys) = x @ ''/'' @ join_segments (y # ys)"

definition path_normalize :: "string \<Rightarrow> string" where
  "path_normalize path =
     (if path = [] then ''.''
      else
        (let isAbsolute = (hd path = CHR ''/'');
             trailingSeparator = (last path = CHR ''/'');
             res = join_segments (foldl (normalize_step (\<not> isAbsolute)) [] (split_path [] path))
         in if res = [] then
              (if isAbsolute then ''/'' else if trailingSeparator then ''./'' else ''.'')
            else (if isAbsolute then ''/'' else []) @ res @
                 (if trailingSeparator then ''/'' else [])))"

definition path_join :: "string list \<Rightarrow> string" where
  "path_join args =
     (let joined = join_segments (filter (\<lambda>arg. arg \<noteq> []) args)
      in if joined = [] then ''.'' else path_normalize joined)"

definition READ_FROM_CACHE :: "ctx \<Rightarrow> bool" where
  "READ_FROM_CACHE c = (process_env c ''LANG_GEN_READ_CACHE'' = Some ''true'')"

definition WRITE_TO_CACHE :: "ctx \<Rightarrow> bool" where
  "WRITE_TO_CACHE c = (process_env c ''LANG_GEN_WRITE_CACHE'' \<noteq> Some ''false'')"

text \<open>\<^verbatim>\<open>process.env.OPENAI_MODEL || 'gpt-5'\<close>: an unset or empty variable gives the default.\<close>

definition model_name :: "ctx \<Rightarrow> string" where
  "model_name c =
     (case process_env c ''OPENAI_MODEL'' of
        None \<Rightarrow> ''gpt-5''
      | Some m \<Rightarrow> if m = [] then ''gpt-5'' else m)"

text \<open>A call of \<^verbatim>\<open>client.responses.create\<close>.\<close>

record custom_tool =
  tool_name :: string
  tool_description :: string
  tool_definition :: string

record request =
  req_model :: string
  req_stream :: bool
  req_instructions :: string
  req_input :: string
  req_tool :: "custom_tool option"

text \<open>
  An event of a streamed reply, by what the stages do with it: an event with a truthy
  \<^verbatim>\<open>error\<close> field (carrying \<^verbatim>\<open>error.message\<close>, empty when there is none), an event of one
  of the five shapes whose text is appended to the buffer, and any other event, which is
  skipped.
\<close>

datatype event = ErrorEvent string | TextEvent string | OtherEvent

text \<open>A reply that is not streamed: \<^verbatim>\<open>output_text\<close> and \<^verbatim>\<open>output\<close> (empty when absent).\<close>

record response =
  output_text :: string
  output_field :: string

text \<open>How a subprocess ends: \<^verbatim>\<open>exit\<close> with a status, what it wrote to its error stream and
  the parser file it left (if any), or \<^verbatim>\<open>error\<close> with a code and a message when it cannot be
  started.\<close>

datatype proc_result =
  Exit nat string "string option"
| SpawnError string string

text \<open>
  The collaborators, as functions of the number of earlier calls and of what they are
  given. For the synthesis service \<open>Inl msg\<close> is a call (or the iteration of its stream)
  that throws an error with that message. The compiler is given its command line and the
  grammar it reads. Loading the parser module from the content of its file (\<open>None\<close> when
  the file is not there) throws an error or tells whether the module has a \<^verbatim>\<open>get_parser\<close>;
  importing the interpreter module from the content of its file throws an error (\<open>Some\<close>
  its message) or succeeds; and running the sample through freshly loaded modules throws an
  error or gives the result (as JSON text).
\<close>

record externals =
  create_stream :: "nat \<Rightarrow> request \<Rightarrow> string + event list"
  create_response :: "nat \<Rightarrow> request \<Rightarrow> string + response"
  lark_js :: "nat \<Rightarrow> string list \<Rightarrow> string \<Rightarrow> proc_result"
  require_parser :: "string option \<Rightarrow> string + bool"
  import_interpreter :: "string option \<Rightarrow> string option"
  run_sample :: "string option \<Rightarrow> string option \<Rightarrow> string \<Rightarrow> string + string"

record cache_entry =
  entry_input :: json
  entry_output :: string
  entry_timestamp :: string

text \<open>
  The state outside the process: the files of the cache directory (by file name, each as the
  entry its JSON text parses to), the other files (by path), the calls made to the synthesis
  service, the subprocesses started, the lines the operator has still to type, and the time.
  Reading fails exactly on a file that is not there. Writing can fail: \<open>cache_writable\<close>
  tells, for a file name of the cache directory, whether making the directory and writing
  that file succeed, and \<open>write_error\<close> gives, for the path of any other file, the message of
  the error that writing it raises (\<open>None\<close> when the write succeeds). Diagnostic output and
  delays are not part of the state.
\<close>

record world =
  cache_dir :: "string \<rightharpoonup> cache_entry"
  files :: "string \<rightharpoonup> string"
  requests :: "request list"
  spawns :: "string list list"
  answers :: "string list"
  now :: string
  cache_writable :: "string \<Rightarrow> bool"
  write_error :: "string \<Rightarrow> string option"

definition cache_file :: "string \<Rightarrow> json \<Rightarrow> string" where
  "cache_file type input = type @ ''-'' @ getCacheKey type input @ ''.json''"

text \<open>\<^verbatim>\<open>getCached\<close>: \<open>None\<close> is \<^verbatim>\<open>null\<close>.\<close>

definition getCached :: "ctx \<Rightarrow> string \<Rightarrow> json \<Rightarrow> world \<Rightarrow> cache_entry option" where
  "getCached c type input w =
     (if \<not> READ_FROM_CACHE c then None
      else cache_dir w (cache_file type input))"

text \<open>\<^verbatim>\<open>saveCache\<close>: an error of \<^verbatim>\<open>mkdir\<close> or \<^verbatim>\<open>writeFile\<close> is caught and only reported, and
  nothing is stored.\<close>

definition saveCache :: "ctx \<Rightarrow> string \<Rightarrow> json \<Rightarrow> string \<Rightarrow> world \<Rightarrow> world" where
  "saveCache c type input output w =
     (if \<not> WRITE_TO_CACHE c then w
      else if \<not> cache_writable w (cache_file type input) then w
      else w\<lparr>cache_dir := (cache_dir w)(cache_file type input \<mapsto>
               \<lparr>entry_input = input, entry_output = output, entry_timestamp = now w\<rparr>)\<rparr>)"

text \<open>Calling the service appends the request to the log of calls.\<close>

definition call_stream ::
  "externals \<Rightarrow> request \<Rightarrow> world \<Rightarrow> (string + event list) \<times> world" where
  "call_stream ext req w =
     (create_stream ext (length (requests w)) req, w\<lparr>requests := requests w @ [req]\<rparr>)"

definition call_response ::
  "externals \<Rightarrow> request \<Rightarrow> world \<Rightarrow> (string + response) \<times> world" where
  "call_response ext req w =
     (create_response ext (length (requests w)) req, w\<lparr>requests := requests w @ [req]\<rparr>)"

text \<open>The \<^verbatim>\<open>for await\<close> loop over a stream: the buffer, or the error that ends the loop.\<close>

fun drain :: "string \<Rightarrow> string \<Rightarrow> event list \<Rightarrow> string + string" where
  "drain dflt buf [] = Inr buf"
| "drain dflt buf (ErrorEvent m # es) = Inl (if m = [] then dflt else m)"
| "drain dflt buf (TextEvent t # es) = drain dflt (buf @ t) es"
| "drain dflt buf (OtherEvent # es) = drain dflt buf es"

text \<open>A number in a template literal.\<close>

fun string_of_nat :: "nat \<Rightarrow> string" where
  "string_of_nat n =
     (if n < 10 then [''0123456789'' ! n]
      else string_of_nat (n div 10) @ [''0123456789'' ! (n mod 10)])"

declare string_of_nat.simps [simp del]

section \<open>Step 1: the grammar of a language (\<^verbatim>\<open>generateGrammar\<close>)\<close>

definition LARK_SUBSET_STRICT :: string where
  \<open>LARK_SUBSET_STRICT =
     ''start: statement+\<newline>'' @
     ''\<newline>'' @
     ''?statement: rule\<newline>'' @
     ''          | token_rule\<newline>'' @
     ''          | import_common\<newline>'' @
     ''          | ignore_stmt\<newline>'' @
     ''\<newline>'' @
     ''import_common: "%import" "common" "." NAME_UC          -> import_common\<newline>'' @
     ''ignore_stmt: "%ignore" expansion\<newline>'' @
     ''\<newline>'' @
     ''rule: NAME_LC ":" expansions                           -> rule\<newline>'' @
     ''token_rule: NAME_UC ":" expansions                     -> token_rule\<newline>'' @
     ''\<newline>'' @
     ''expansions: aliasable_expansion ("|" aliasable_expansion)*   -> alts\<newline>'' @
     ''aliasable_expansion: expansion ("->" NAME_LC)?               -> alias\<newline>'' @
     ''expansion: expr+                                             -> seq\<newline>'' @
     ''\<newline>'' @
     ''?expr: atom quantifier*                                     -> quanted\<newline>'' @
     ''\<newline>'' @
     ''quantifier: "*"\<newline>'' @
     ''          | "+"\<newline>'' @
     ''          | "?"\<newline>'' @
     ''          | BOUNDED_REPEAT\<newline>'' @
     ''\<newline>'' @
     ''?atom: NAME_LC                        -> ruleref\<newline>'' @
     ''     | NAME_UC                        -> tokref\<newline>'' @
     ''     | STRING                         -> literal\<newline>'' @
     ''     | REGEXP                         -> pattern\<newline>'' @
     ''     | "(" expansions ")"             -> group\<newline>'' @
     ''     | "[" expansions "]"             -> opt_group\<newline>'' @
     ''     | "{" expansions "}"             -> rep_group\<newline>'' @
     ''     | "."                            -> any_terminal\<newline>'' @
     ''\<newline>'' @
     ''NAME_LC: /[a-z_][a-z0-9_]*/\<newline>'' @
     ''NAME_UC: /[A-Z_][A-Z0-9_]*/\<newline>'' @
     ''\<newline>'' @
     ''STRING: /"([^"'' @ [BSLASH, BSLASH] @ '']|'' @ [BSLASH, BSLASH] @ ''.)*"|'' @ [SQ] @
     ''([^'' @ [SQ, BSLASH, BSLASH] @ '']|'' @ [BSLASH, BSLASH] @ ''.)*'' @ [SQ] @
     ''/\<newline>'' @
     ''REGEXP: /'' @ [BSLASH] @ ''/(?:'' @ [BSLASH, BSLASH, BSLASH] @ ''/|'' @
     [BSLASH, BSLASH] @ ''.|[^'' @ [BSLASH] @ ''/'' @ [BSLASH] @ ''n])+'' @ [BSLASH] @
     ''/[imslux]*/\<newline>'' @
     ''BOUNDED_REPEAT: /~(?:[0-9]+)?'' @ [BSLASH] @ ''.'' @ [BSLASH] @
     ''.(?:[0-9]+)?/\<newline>'' @
     ''\<newline>'' @
     ''%import common.WS\<newline>'' @
     ''%import common.CPP_COMMENT\<newline>'' @
     ''%import common.C_COMMENT\<newline>'' @
     ''%ignore WS\<newline>'' @
     ''%ignore CPP_COMMENT\<newline>'' @
     ''%ignore C_COMMENT\<newline>''\<close>

definition grammar_instructions_base :: string where
  \<open>grammar_instructions_base =
     ''\<newline>'' @
     ''You are a CFG designer.\<newline>'' @
     ''\<newline>'' @
     ''Task: Output EXACTLY ONE Lark grammar that defines a context-free grammar for the language described in the input.\<newline>'' @
     ''The output MUST conform to a strict subset of Lark (validator provided via tool):\<newline>'' @
     ''- Only: rules/tokens, groups (), optionals [], repetitions {}, postfix + ? * and bounded repeats ~min..max.\<newline>'' @
     ''- Only "%import common.*" and "%ignore".\<newline>'' @
     ''- NO %declare, NO templates, NO terminal priorities.\<newline>'' @
     ''- Regex terminals must avoid lookaround and lazy quantifiers; flags like i,m,s,l,u,x are fine.\<newline>'' @
     ''\<newline>'' @
     ''Formatting requirements:\<newline>'' @
     ''- Output ONLY the grammar text (no code fences, no prose).\<newline>'' @
     ''- Provide a single entry rule named "start".\<newline>'' @
     ''- Use lowercase names for rules, UPPERCASE for tokens.\<newline>'' @
     ''- Include "%import common.WS" and "%ignore WS" unless whitespace is significant.\<newline>'' @
     ''- Prefer using aliases "-> name" on meaningful alternatives to guide AST shape.\<newline>'' @
     ''\<newline>'' @
     ''CRITICAL for operator handling:\<newline>'' @
     ''- Define operators as separate UPPERCASE tokens (e.g., ADD_OP: "+", MUL_OP: "*")\<newline>'' @
     ''- DO NOT use inline literals like ("+" | "-") in rules - these get discarded by the parser\<newline>'' @
     ''- Example: Instead of: sum: product (("+" | "-") product)*\<newline>'' @
     ''           Use: sum: product (ADD_OP product | SUB_OP product)*\<newline>'' @
     ''                ADD_OP: "+"\<newline>'' @
     ''                SUB_OP: "-"\<newline>'' @
     ''- This ensures operators are preserved in the AST for the interpreter to handle\<newline>'' @
     ''\<newline>'' @
     ''If the spec is underspecified, choose a reasonable minimal design rather than asking questions.\<newline>'' @
     ''\<newline>'' @
     ''CRITICAL SYNTAX RULES:\<newline>'' @
     ''- ALL string literals MUST use double quotes: "string" (NOT '' @ [SQ] @ ''string'' @
     [SQ] @ '')\<newline>'' @
     ''- Quotes must be properly matched: "^" not "^'' @ [SQ] @ ''\<newline>'' @
     ''- Use standard operators: "-" for negation (not "_")\<newline>'' @
     ''- In patterns like (expr "," expr)*, use double quotes for the comma''\<close>

text \<open>The instructions of an attempt: the base text, the sample when there is one, and
  the errors of all earlier attempts when there are any.\<close>

definition attempt_line :: "nat \<times> string \<Rightarrow> string" where
  \<open>attempt_line = (\<lambda>(i, err).
        ''Attempt '' @
        string_of_nat (i + 1) @
        '': '' @
        err @
        ''\<newline>'')\<close>

definition sample_section :: "ctx \<Rightarrow> string" where
  \<open>sample_section c =
     (if GLOBAL_SAMPLE c \<noteq> [] then
     ''\<newline>'' @
     ''\<newline>'' @
     ''EXAMPLE PROGRAM TO SUPPORT:\<newline>'' @
     ''The grammar must be able to parse this example:\<newline>'' @
     GLOBAL_SAMPLE c @
     ''\<newline>'' @
     ''Make sure your grammar handles all the constructs shown in this example.''
      else [])\<close>

definition errors_header :: string where
  \<open>errors_header =
     ''\<newline>'' @
     ''\<newline>'' @
     ''PREVIOUS ATTEMPTS FAILED WITH THESE ERRORS:\<newline>''\<close>

definition errors_footer :: string where
  \<open>errors_footer =
     ''\<newline>'' @
     ''Please fix these specific issues in your grammar.''\<close>

definition errors_section :: "string list \<Rightarrow> string" where
  \<open>errors_section previousErrors =
     (if length previousErrors > 0 then
        errors_header @ concat (map attempt_line (enumerate 0 previousErrors)) @ errors_footer
      else [])\<close>

definition grammar_instructions :: "ctx \<Rightarrow> string list \<Rightarrow> string" where
  \<open>grammar_instructions c previousErrors =
     grammar_instructions_base @ sample_section c @ errors_section previousErrors\<close>

definition grammar_input :: "ctx \<Rightarrow> string \<Rightarrow> string" where
  \<open>grammar_input c spec =
     ''Language description:\<newline>'' @ spec @
     (if GLOBAL_SAMPLE c \<noteq> [] then
        ''\<newline>\<newline>Example program that must be parseable:\<newline>'' @ GLOBAL_SAMPLE c
      else [])\<close>

definition grammar_request :: "ctx \<Rightarrow> string \<Rightarrow> string list \<Rightarrow> request" where
  \<open>grammar_request c spec previousErrors =
     \<lparr>req_model = model_name c,
      req_stream = True,
      req_instructions = grammar_instructions c previousErrors,
      req_input = grammar_input c spec,
      req_tool = Some \<lparr>tool_name = ''lark_grammar'',
        tool_description =
          ''Emit exactly one Lark grammar (strict subset) for the described language.'',
        tool_definition = LARK_SUBSET_STRICT\<rparr>\<rparr>\<close>

subsection \<open>The local checks on a generated grammar\<close>

text \<open>
  \<^verbatim>\<open>grammarText.match(/(?<![/])('[^']*')/g)\<close>: all matches from left to right. A match
  starts at a single quote that does not follow a slash and runs to the next single quote,
  which must exist; the search goes on after it. The flag says whether the character before
  the current position is a slash.
\<close>

lemma length_tl_dropWhile: "length (dropWhile P cs) - Suc 0 < Suc (length cs)"
proof -
  have "length (dropWhile P cs) \<le> length cs"
    by (rule length_dropWhile_le)
  then show ?thesis
    by simp
qed

function single_quote_matches :: "bool \<Rightarrow> string \<Rightarrow> string list" where
  "single_quote_matches after_slash [] = []"
| "single_quote_matches after_slash (c # cs) =
     (if c = SQ \<and> \<not> after_slash \<and> SQ \<in> set cs then
        (SQ # takeWhile (\<lambda>x. x \<noteq> SQ) cs @ [SQ]) #
        single_quote_matches False (tl (dropWhile (\<lambda>x. x \<noteq> SQ) cs))
      else single_quote_matches (c = SLASH) cs)"
  by pat_completeness auto
termination
  by (relation "measure (\<lambda>(b, s). length s)") (auto intro: length_tl_dropWhile)

text \<open>
  \<^verbatim>\<open>/"[^"]*'(?![^"]*")|'[^']*"(?![^']*')/g\<close>. One alternative is
  \<open>q [^q]* r (?![^q]*q)\<close> for the two quote characters \<open>q\<close> and \<open>r\<close>. After \<open>q\<close> the
  star first takes every character up to the next \<open>q\<close> and then gives them back one at a
  time, until \<open>r\<close> follows and the look-ahead holds, that is, no \<open>q\<close> occurs after that \<open>r\<close>.
\<close>

definition tail_ok :: "char \<Rightarrow> char \<Rightarrow> string \<Rightarrow> bool" where
  "tail_ok q r rest = (case rest of [] \<Rightarrow> False | x # xs \<Rightarrow> x = r \<and> q \<notin> set xs)"

fun give_back :: "char \<Rightarrow> char \<Rightarrow> string \<Rightarrow> nat \<Rightarrow> nat option" where
  "give_back q r cs 0 = (if tail_ok q r cs then Some 0 else None)"
| "give_back q r cs (Suc k) =
     (if tail_ok q r (drop (Suc k) cs) then Some (Suc k) else give_back q r cs k)"

definition match_alternative :: "char \<Rightarrow> char \<Rightarrow> string \<Rightarrow> (string \<times> string) option" where
  "match_alternative q r s =
     (case s of
        [] \<Rightarrow> None
      | c # cs \<Rightarrow>
          if c = q then
            (case give_back q r cs (length (takeWhile (\<lambda>x. x \<noteq> q) cs)) of
               Some k \<Rightarrow> Some (take (k + 2) s, drop (k + 2) s)
             | None \<Rightarrow> None)
          else None)"

definition match_mismatched :: "string \<Rightarrow> (string \<times> string) option" where
  "match_mismatched s =
     (case match_alternative DQ SQ s of
        Some m \<Rightarrow> Some m
      | None \<Rightarrow> match_alternative SQ DQ s)"

lemma match_mismatched_shorter:
  assumes "match_mismatched s = Some (m, after)"
  shows "length after < length s"
proof -
  from assms obtain q r where "match_alternative q r s = Some (m, after)"
    by (auto simp: match_mismatched_def split: option.splits)
  then obtain k where "after = drop (k + 2) s" and "s \<noteq> []"
    by (auto simp: match_alternative_def split: list.splits if_splits option.splits)
  then show ?thesis by simp
qed

function mismatched_matches :: "string \<Rightarrow> string list" where
  "mismatched_matches [] = []"
| "mismatched_matches (c # cs) =
     (case match_mismatched (c # cs) of
        Some (m, after) \<Rightarrow> m # mismatched_matches after
      | None \<Rightarrow> mismatched_matches cs)"
  by pat_completeness auto
termination
  by (relation "measure length") (auto dest: match_mismatched_shorter)

text \<open>The checks of one attempt on the trimmed text: the text itself, or the message of the
  error that is thrown. An empty list of matches is the \<^verbatim>\<open>null\<close> that \<^verbatim>\<open>match\<close> returns.\<close>

definition validate_grammar :: "string \<Rightarrow> string + string" where
  \<open>validate_grammar grammarText =
     (if grammarText \<noteq> [] then
        let matches = single_quote_matches False grammarText;
            syntaxErrors1 =
              (if matches \<noteq> [] then
                 [''Found single quotes in grammar: '' @ join '', '' (take 3 matches) @
                  (if length matches > 3 then ''...'' else []) @
                  ''. Use double quotes instead.'']
               else []);
            mismatches = mismatched_matches grammarText;
            syntaxErrors =
              syntaxErrors1 @
              (if mismatches \<noteq> [] then
                 [''Found mismatched quotes: '' @ join '', '' (take 3 mismatches)]
               else [])
        in if length syntaxErrors > 0 then
             Inl (''Grammar syntax errors: '' @ join ''; '' syntaxErrors)
           else Inr grammarText
      else Inl ''Generated grammar is empty'')\<close>




subsection \<open>Attempts and retries\<close>

definition grammar_cache_input :: "string \<Rightarrow> json" where
  "grammar_cache_input spec = JObject [(''spec'', JString spec)]"

text \<open>The body of the \<^verbatim>\<open>try\<close> block of one attempt, from the reply of the service on:
  the stream is read to its end, the text trimmed and checked. \<open>Inr\<close> is the grammar that
  is cached and returned, \<open>Inl\<close> the message of the error that the \<^verbatim>\<open>catch\<close> block
  receives.\<close>

definition grammar_text_of :: "string + event list \<Rightarrow> string + string" where
  "grammar_text_of reply =
     (case reply of
        Inl msg \<Rightarrow> Inl msg
      | Inr events \<Rightarrow>
          (case drain ''Grammar generation failed'' [] events of
             Inl msg \<Rightarrow> Inl msg
           | Inr text \<Rightarrow> validate_grammar (trim text)))"

definition grammar_attempt ::
  "externals \<Rightarrow> ctx \<Rightarrow> string \<Rightarrow> string list \<Rightarrow> world \<Rightarrow> (string + string) \<times> world" where
  "grammar_attempt ext c spec previousErrors w =
     (case call_stream ext (grammar_request c spec previousErrors) w of
        (reply, w1) \<Rightarrow>
          (case grammar_text_of reply of
             Inl msg \<Rightarrow> (Inl msg, w1)
           | Inr grammarText \<Rightarrow>
               (Inr grammarText,
                saveCache c ''grammar'' (grammar_cache_input spec) grammarText w1)))"

definition exhausted_message :: "nat \<Rightarrow> string \<Rightarrow> string" where
  "exhausted_message maxRetries msg =
     ''Failed to generate valid grammar after '' @ string_of_nat maxRetries @
     '' attempts. Last error: '' @ msg"

text \<open>The \<^verbatim>\<open>while\<close> loop; \<open>attempts\<close> is the counter before the increment.\<close>

function grammar_loop ::
  "externals \<Rightarrow> ctx \<Rightarrow> string \<Rightarrow> nat \<Rightarrow> nat \<Rightarrow> string list \<Rightarrow> world \<Rightarrow>
   (string + string) \<times> world" where
  "grammar_loop ext c spec maxRetries attempts previousErrors w =
     (if attempts < maxRetries then
        (case grammar_attempt ext c spec previousErrors w of
           (Inr grammarText, w1) \<Rightarrow> (Inr grammarText, w1)
         | (Inl msg, w1) \<Rightarrow>
             if Suc attempts \<ge> maxRetries then
               (Inl (exhausted_message maxRetries msg), w1)
             else grammar_loop ext c spec maxRetries (Suc attempts) (previousErrors @ [msg]) w1)
      else (Inl ''Failed to generate grammar: max retries exceeded'', w))"
  by pat_completeness auto
termination
  by (relation "measure (\<lambda>(ext, c, spec, maxRetries, attempts, previousErrors, w).
        maxRetries - attempts)") auto

declare grammar_loop.simps [simp del]

definition generateGrammar ::
  "externals \<Rightarrow> ctx \<Rightarrow> string \<Rightarrow> nat \<Rightarrow> world \<Rightarrow> (string + string) \<times> world" where
  "generateGrammar ext c spec maxRetries w =
     (case getCached c ''grammar'' (grammar_cache_input spec) w of
        Some cached \<Rightarrow> (Inr (entry_output cached), w)
      | None \<Rightarrow> grammar_loop ext c spec maxRetries 0 [] w)"

section \<open>Step 2: compiling the grammar (\<^verbatim>\<open>compileGrammar\<close>)\<close>

text \<open>
  The rewrite of the parser file. \<^verbatim>\<open>getParserRegex\<close> is the text \<open>get_parser_head\<close>, any
  characters (as few as possible), the text \<open>get_parser_return\<close>, any characters (as few as
  possible) and a closing brace. It matches at the first place where the head occurs, up to
  the first closing brace after the first occurrence of the return statement behind that
  head; when one of the three is missing there is no match anywhere. \<^verbatim>\<open>replace\<close> puts
  \<open>newGetParser\<close> (which has no \<^verbatim>\<open>$\<close> pattern) in the place of that match, and returns the text
  as it is when there is no match.
\<close>

definition get_parser_head :: string where
  "get_parser_head = ''function get_parser(options = {}) {''"

definition get_parser_return :: string where
  "get_parser_return =
     ''return Lark._load_from_dict({ data: DATA, memo: MEMO, ...options });''"

definition newGetParser :: string where
  \<open>newGetParser =
     ''function get_parser(options = {}) {\<newline>'' @
     ''  if (\<newline>'' @
     ''    options.transformer &&\<newline>'' @
     ''    options.transformer.constructor.name === "object"\<newline>'' @
     ''  ) {\<newline>'' @
     ''    options.transformer = Transformer.fromObj(options.transformer);\<newline>'' @
     ''  }\<newline>'' @
     ''\<newline>'' @
     ''  // Filter out unsupported options from DATA\<newline>'' @
     ''  const filteredData = JSON.parse(JSON.stringify(DATA));\<newline>'' @
     ''  if (filteredData.options) {\<newline>'' @
     ''    delete filteredData.options.strict;\<newline>'' @
     ''    delete filteredData.options.ordered_sets;\<newline>'' @
     ''  }\<newline>'' @
     ''\<newline>'' @
     ''  return Lark._load_from_dict({ data: filteredData, memo: MEMO, ...options });\<newline>'' @
     ''}''\<close>

text \<open>The text before and the text after the first occurrence of a pattern.\<close>

fun split_at_first :: "string \<Rightarrow> string \<Rightarrow> (string \<times> string) option" where
  "split_at_first pat [] = (if pat = [] then Some ([], []) else None)"
| "split_at_first pat (c # cs) =
     (if prefix pat (c # cs) then Some ([], drop (length pat) (c # cs))
      else map_option (\<lambda>(before, after). (c # before, after)) (split_at_first pat cs))"

definition replace_get_parser :: "string \<Rightarrow> string" where
  "replace_get_parser parserContent =
     (case split_at_first get_parser_head parserContent of
        None \<Rightarrow> parserContent
      | Some (before, rest) \<Rightarrow>
          (case split_at_first get_parser_return rest of
             None \<Rightarrow> parserContent
           | Some (body, rest2) \<Rightarrow>
               (case split_at_first ''}'' rest2 of
                  None \<Rightarrow> parserContent
                | Some (body2, after) \<Rightarrow> before @ newGetParser @ after)))"

text \<open>The inner \<^verbatim>\<open>try\<close> of the exit handler: when the parser file cannot be read, or
  the rewritten text cannot be written back, the file is left as it is (a warning is
  printed).\<close>

definition fix_parser :: "string \<Rightarrow> world \<Rightarrow> world" where
  "fix_parser parserFile w =
     (case files w parserFile of
        None \<Rightarrow> w
      | Some parserContent \<Rightarrow>
          (case write_error w parserFile of
             Some msg \<Rightarrow> w
           | None \<Rightarrow> w\<lparr>files := (files w)(parserFile \<mapsto> replace_get_parser parserContent)\<rparr>))"

text \<open>An error of the compilation stage: its message, and the fields \<^verbatim>\<open>grammarText\<close>,
  \<^verbatim>\<open>output\<close> and \<^verbatim>\<open>lastError\<close> when it has them.\<close>

datatype compile_error =
  CompileError (err_message: string) (err_grammarText: "string option")
    (err_output: "string option") (err_lastError: "compile_error option")

text \<open>One run of the compiler: the promise around \<^verbatim>\<open>spawn\<close>. The subprocess is logged, and
  what it leaves in the parser file is written there.\<close>

definition compile_attempt ::
  "externals \<Rightarrow> string \<Rightarrow> string \<Rightarrow> string \<Rightarrow> string \<Rightarrow> world \<Rightarrow>
   (compile_error + string \<times> string) \<times> world" where
  "compile_attempt ext larkJsCommand grammarFile parserFile grammarText w =
     (let argv = [larkJsCommand, grammarFile, ''-o'', parserFile];
          w1 = w\<lparr>spawns := spawns w @ [argv]\<rparr>
      in case lark_js ext (length (spawns w)) argv grammarText of
           Exit code errorOutput produced \<Rightarrow>
             (let w2 = (case produced of
                          None \<Rightarrow> w1
                        | Some parserContent \<Rightarrow>
                            w1\<lparr>files := (files w1)(parserFile \<mapsto> parserContent)\<rparr>)
              in if code = 0 then (Inr (grammarFile, parserFile), fix_parser parserFile w2)
                 else (Inl (CompileError (''lark-js exited with code '' @ string_of_nat code)
                              (Some grammarText) (Some errorOutput) None), w2))
         | SpawnError code message \<Rightarrow>
             (Inl (CompileError
                     (if code = ''ENOENT'' then
                        ''lark-js not found. Run: npm run postinstall (or ./setup.sh)''
                      else message)
                     (Some grammarText) None None), w1))"

text \<open>The \<^verbatim>\<open>while\<close> loop and the error thrown after it, which carries the grammar text and
  the error of the last attempt. With no attempt made \<^verbatim>\<open>lastError\<close> is still \<^verbatim>\<open>null\<close> and
  reading its message throws a \<^verbatim>\<open>TypeError\<close>.\<close>

function compile_loop ::
  "externals \<Rightarrow> string \<Rightarrow> string \<Rightarrow> string \<Rightarrow> string \<Rightarrow> nat \<Rightarrow> nat \<Rightarrow>
   compile_error option \<Rightarrow> world \<Rightarrow> (compile_error + string \<times> string) \<times> world" where
  "compile_loop ext larkJsCommand grammarFile parserFile grammarText maxRetries attempts
      lastError w =
     (if attempts < maxRetries then
        (case compile_attempt ext larkJsCommand grammarFile parserFile grammarText w of
           (Inr paths, w1) \<Rightarrow> (Inr paths, w1)
         | (Inl e, w1) \<Rightarrow>
             compile_loop ext larkJsCommand grammarFile parserFile grammarText maxRetries
               (Suc attempts) (Some e) w1)
      else
        (case lastError of
           None \<Rightarrow>
             (Inl (CompileError
                     (''Cannot read properties of null (reading '' @ [SQ] @ ''message'' @
                      [SQ] @ '')'')
                     None None None), w)
         | Some e \<Rightarrow>
             (Inl (CompileError
                     (''Grammar compilation failed after '' @ string_of_nat maxRetries @
                      '' attempts. Last error: '' @ err_message e)
                     (Some grammarText) None (Some e)), w)))"
  by pat_completeness auto
termination
  by (relation "measure (\<lambda>(ext, cmd, gf, pf, g, maxRetries, attempts, e, w).
        maxRetries - attempts)") auto

declare compile_loop.simps [simp del]

text \<open>The command: the compiler of the virtual environment of the working directory, else
  that of the module directory, else the one on the search path.\<close>

definition larkJsCommand :: "ctx \<Rightarrow> world \<Rightarrow> string" where
  "larkJsCommand c w =
     (let venvPath = path_join [cwd c, ''venv'', ''bin'', ''lark-js''];
          packageVenvPath = path_join [module_dir c, ''venv'', ''bin'', ''lark-js'']
      in if files w venvPath \<noteq> None then venvPath
         else if files w packageVenvPath \<noteq> None then packageVenvPath
         else ''lark-js'')"

text \<open>\<^verbatim>\<open>compileGrammar\<close>. The grammar file is written first, outside any \<^verbatim>\<open>try\<close>: an error
  of that write (or of making the directory) is the error of the call.\<close>

definition compileGrammar ::
  "externals \<Rightarrow> ctx \<Rightarrow> string \<Rightarrow> string \<Rightarrow> nat \<Rightarrow> world \<Rightarrow>
   (compile_error + string \<times> string) \<times> world" where
  "compileGrammar ext c grammarText outputDir maxRetries w =
     (let grammarFile = path_join [outputDir, ''grammar.lark''];
          parserFile = path_join [outputDir, ''parser.cjs'']
      in case write_error w grammarFile of
           Some msg \<Rightarrow> (Inl (CompileError msg None None None), w)
         | None \<Rightarrow>
             (let w1 = w\<lparr>files := (files w)(grammarFile \<mapsto> grammarText)\<rparr>
              in compile_loop ext (larkJsCommand c w1) grammarFile parserFile grammarText
                   maxRetries 0 None w1))"

section \<open>Step 3: the AST schema of a grammar (\<^verbatim>\<open>extractASTSchema\<close>)\<close>

text \<open>
  \<^verbatim>\<open>/^([a-z_][a-z0-9_]*)\s*:/gm\<close> and \<^verbatim>\<open>/^([A-Z_][A-Z0-9_]*)\s*:/gm\<close> tried at one
  position that \<^verbatim>\<open>^\<close> accepts: the name is taken greedily, then the white space, then the
  colon must follow. The three classes are disjoint, so giving characters back never helps and
  the greedy attempt is the only one. The result is capture group 1 and the text after the
  match (where \<^verbatim>\<open>lastIndex\<close> points).
\<close>

definition match_name_colon ::
  "(char \<Rightarrow> bool) \<Rightarrow> (char \<Rightarrow> bool) \<Rightarrow> string \<Rightarrow> (string \<times> string) option" where
  "match_name_colon first rest s =
     (case s of
        [] \<Rightarrow> None
      | c # cs \<Rightarrow>
          if first c then
            (case dropWhile is_space (dropWhile rest cs) of
               [] \<Rightarrow> None
             | d # ds \<Rightarrow> if d = CHR '':'' then Some (c # takeWhile rest cs, ds) else None)
          else None)"

text \<open>
  \<^verbatim>\<open>while ((match = re.exec(grammarText))) ...\<close> for the two anchored expressions: every
  call of \<^verbatim>\<open>exec\<close> resumes at \<^verbatim>\<open>lastIndex\<close> and returns the leftmost match from there. The
  flag \<open>bol\<close> says whether \<^verbatim>\<open>^\<close> holds at the current position (start of the text, or just
  after a line terminator). The list holds the captured names in the order of the matches.
\<close>

lemma match_name_colon_shorter:
  assumes "match_name_colon first rest s = Some (name, after)"
  shows "length after < length s"
proof -
  from assms obtain c cs where s: "s = c # cs"
    by (cases s) (simp_all add: match_name_colon_def)
  have le: "length (dropWhile is_space (dropWhile rest cs)) \<le> length cs"
    by (meson length_dropWhile_le le_trans)
  from assms s obtain d where "dropWhile is_space (dropWhile rest cs) = d # after"
    by (auto simp: match_name_colon_def split: if_splits list.splits)
  with le s show ?thesis by simp
qed

function exec_names ::
  "(char \<Rightarrow> bool) \<Rightarrow> (char \<Rightarrow> bool) \<Rightarrow> bool \<Rightarrow> string \<Rightarrow> string list" where
  "exec_names first rest bol [] = []"
| "exec_names first rest bol (c # cs) =
     (case (if bol then match_name_colon first rest (c # cs) else None) of
        Some (name, after) \<Rightarrow> name # exec_names first rest False after
      | None \<Rightarrow> exec_names first rest (is_line_terminator c) cs)"
  by pat_completeness auto
termination
  by (relation "measure (\<lambda>(first, rest, bol, s). length s)")
     (auto split: if_splits dest: match_name_colon_shorter)

text \<open>
  \<^verbatim>\<open>/->\s*([a-z_][a-z0-9_]*)/g\<close> tried at one position, and its \<^verbatim>\<open>exec\<close> loop.
\<close>

definition match_alias :: "string \<Rightarrow> (string \<times> string) option" where
  "match_alias s =
     (case s of
        a # b # cs \<Rightarrow>
          if a = CHR ''-'' \<and> b = CHR ''>'' then
            (case dropWhile is_space cs of
               [] \<Rightarrow> None
             | d # ds \<Rightarrow>
                 if lc_first d then Some (d # takeWhile lc_rest ds, dropWhile lc_rest ds)
                 else None)
          else None
      | _ \<Rightarrow> None)"

lemma match_alias_shorter:
  assumes "match_alias s = Some (name, after)"
  shows "length after < length s"
proof -
  from assms obtain cs where s: "s = CHR ''-'' # CHR ''>'' # cs"
    by (auto simp: match_alias_def split: list.splits if_splits)
  from assms s obtain d ds where d: "dropWhile is_space cs = d # ds"
    and after: "after = dropWhile lc_rest ds"
    by (auto simp: match_alias_def split: list.splits if_splits)
  have "length (dropWhile is_space cs) \<le> length cs"
    by (rule length_dropWhile_le)
  with d have "length ds < length cs" by simp
  moreover have "length after \<le> length ds"
    unfolding after by (rule length_dropWhile_le)
  ultimately show ?thesis using s by simp
qed

function exec_aliases :: "string \<Rightarrow> string list" where
  "exec_aliases [] = []"
| "exec_aliases (c # cs) =
     (case match_alias (c # cs) of
        Some (name, after) \<Rightarrow> name # exec_aliases after
      | None \<Rightarrow> exec_aliases cs)"
  by pat_completeness auto
termination
  by (relation "measure length") (auto dest: match_alias_shorter)

text \<open>\<^verbatim>\<open>Set.prototype.add\<close> on a set kept in insertion order, as \<^verbatim>\<open>Array.from\<close> reads it.\<close>

definition set_add :: "string list \<Rightarrow> string \<Rightarrow> string list" where
  "set_add xs x = (if x \<in> set xs then xs else xs @ [x])"

record schema =
  rules :: "string list"
  tokens :: "string list"
  aliases :: "string list"
  nodeTypes :: "string list"

definition extractASTSchema :: "string \<Rightarrow> schema" where
  "extractASTSchema grammarText =
     (let rules = foldl set_add [] (exec_names lc_first lc_rest True grammarText);
          tokens = foldl set_add [] (exec_names uc_first uc_rest True grammarText);
          aliases = foldl set_add [] (exec_aliases grammarText)
      in \<lparr>rules = rules, tokens = tokens, aliases = aliases,
          nodeTypes = (if length aliases > 0 then aliases else rules)\<rparr>)"




text \<open>A grammar with the rules \<open>start\<close>, \<open>sum\<close>, \<open>product\<close>, the tokens \<open>NUMBER\<close>,
  \<open>ADD_OP\<close> and the one alias \<open>neg\<close>.\<close>

definition calc_grammar :: string where
  \<open>calc_grammar =
     ''start: sum\<newline>'' @
     ''sum: product (ADD_OP product)*\<newline>'' @
     ''product: NUMBER\<newline>'' @
     ''       | "-" product -> neg\<newline>'' @
     ''NUMBER: /[0-9]+/\<newline>'' @
     ''ADD_OP: "+"\<newline>'' @
     ''%import common.WS\<newline>'' @
     ''%ignore WS''\<close>

section \<open>Step 4: an example program (\<^verbatim>\<open>generateExampleProgram\<close>)\<close>

definition example_cache_input :: "string \<Rightarrow> string \<Rightarrow> string \<Rightarrow> json" where
  "example_cache_input spec grammarText semantics =
     JObject [(''spec'', JString spec), (''grammarText'', JString grammarText),
              (''semantics'', JString semantics)]"

definition example_instructions :: "ctx \<Rightarrow> string" where
  \<open>example_instructions c =
     ''You are a code example writer.\<newline>'' @
     ''Output ONLY example code that conforms to the provided grammar.\<newline>'' @
     ''The example should demonstrate the key features of the language.'' @
     (if GLOBAL_SAMPLE c \<noteq> [] then
        ''\<newline>'' @
        ''\<newline>'' @
        ''USE THIS AS INSPIRATION:\<newline>'' @
        ''Here'' @ [SQ] @
        ''s an example of the kind of program this language should support:\<newline>'' @
        GLOBAL_SAMPLE c
      else [])\<close>

definition example_input :: "string \<Rightarrow> string \<Rightarrow> string \<Rightarrow> string" where
  \<open>example_input spec grammarText semantics =
     ''Given this language specification and grammar, write a good example program.\<newline>'' @
     ''\<newline>'' @
     ''Language specification: '' @
     spec @
     ''\<newline>'' @
     ''\<newline>'' @
     ''Grammar:\<newline>'' @
     grammarText @
     ''\<newline>'' @
     ''\<newline>'' @
     ''Semantics: '' @
     semantics @
     ''\<newline>'' @
     ''\<newline>'' @
     ''The example should be:\<newline>'' @
     ''- Clear and well-commented (if the language supports comments)\<newline>'' @
     ''- Demonstrate the main features\<newline>'' @
     ''- Be relatively short but meaningful\<newline>'' @
     ''- Include expected output or result as a comment if possible''\<close>

definition example_request :: "ctx \<Rightarrow> string \<Rightarrow> string \<Rightarrow> string \<Rightarrow> request" where
  \<open>example_request c spec grammarText semantics =
     \<lparr>req_model = model_name c,
      req_stream = True,
      req_instructions = example_instructions c,
      req_input = example_input spec grammarText semantics,
      req_tool = Some \<lparr>tool_name = ''example_program'',
        tool_description =
          ''Generate an example program that conforms to the provided grammar'',
        tool_definition = grammarText\<rparr>\<rparr>\<close>

definition example_fallback :: "string \<Rightarrow> string" where
  \<open>example_fallback spec =
     ''// Example program for '' @
     spec @
     ''\<newline>'' @
     ''// (Auto-generation failed, using fallback)\<newline>'' @
     ''\<newline>'' @
     ''// Add your code here\<newline>''\<close>

definition example_text_of :: "string + event list \<Rightarrow> string + string" where
  "example_text_of reply =
     (case reply of
        Inl msg \<Rightarrow> Inl msg
      | Inr events \<Rightarrow>
          (case drain ''Example generation failed'' [] events of
             Inl msg \<Rightarrow> Inl msg
           | Inr text \<Rightarrow> Inr (trim text)))"

text \<open>The \<^verbatim>\<open>try\<close> block: \<open>Inr\<close> the example that is cached and returned, \<open>Inl\<close> the message of
  the error that the \<^verbatim>\<open>catch\<close> block turns into the fallback text.\<close>

definition example_attempt ::
  "externals \<Rightarrow> ctx \<Rightarrow> string \<Rightarrow> string \<Rightarrow> string \<Rightarrow> world \<Rightarrow> (string + string) \<times> world" where
  "example_attempt ext c spec grammarText semantics w =
     (case call_stream ext (example_request c spec grammarText semantics) w of
        (reply, w1) \<Rightarrow>
          (case example_text_of reply of
             Inl msg \<Rightarrow> (Inl msg, w1)
           | Inr exampleCode \<Rightarrow>
               (Inr exampleCode,
                saveCache c ''example'' (example_cache_input spec grammarText semantics)
                  exampleCode w1)))"

definition generateExampleProgram ::
  "externals \<Rightarrow> ctx \<Rightarrow> string \<Rightarrow> string \<Rightarrow> string \<Rightarrow> world \<Rightarrow> string \<times> world" where
  "generateExampleProgram ext c spec grammarText semantics w =
     (case getCached c ''example'' (example_cache_input spec grammarText semantics) w of
        Some cached \<Rightarrow> (entry_output cached, w)
      | None \<Rightarrow>
          (case example_attempt ext c spec grammarText semantics w of
             (Inr exampleCode, w1) \<Rightarrow> (exampleCode, w1)
           | (Inl msg, w1) \<Rightarrow> (example_fallback spec, w1)))"

section \<open>Step 5: the interpreter (\<^verbatim>\<open>generateInterpreter\<close>) and its regeneration\<close>

definition string_array :: "string list \<Rightarrow> json" where
  "string_array xs = JArray (map JString xs)"

definition schema_json :: "schema \<Rightarrow> json" where
  "schema_json s =
     JObject [(''rules'', string_array (rules s)), (''tokens'', string_array (tokens s)),
              (''aliases'', string_array (aliases s)),
              (''nodeTypes'', string_array (nodeTypes s))]"

definition interpreter_cache_input :: "string \<Rightarrow> schema \<Rightarrow> string \<Rightarrow> json" where
  "interpreter_cache_input grammarText schema semantics =
     JObject [(''grammarText'', JString grammarText), (''schema'', schema_json schema),
              (''semantics'', JString semantics)]"

definition astNotes :: "schema \<Rightarrow> json" where
  \<open>astNotes schema =
     JObject
       [(''node_kinds'', string_array [
        ''Tree nodes use rule or alias names as `type`'',
        ''Token leaves use `{ type: TOKEN_NAME, value: '' @ [SQ] @ ''...'' @ [SQ] @ '' }`'',
        ''Sequences appear as `children: [...]` in order'']),
        (''entry'', JString ''start''),
        (''rules'', string_array (rules schema)),
        (''tokens'', string_array (tokens schema)),
        (''preferred_node_types'', string_array (nodeTypes schema))]\<close>

text \<open>The prompt and the prelude are the same text in \<^verbatim>\<open>generateInterpreter\<close>,
  \<^verbatim>\<open>regenerateInterpreterWithFix\<close> and \<^verbatim>\<open>regenerateInterpreterWithUserFix\<close>.\<close>

definition interpreter_prompt_a :: string where
  \<open>interpreter_prompt_a =
     ''\<newline>'' @
     ''GRAMMAR:\<newline>'' @
     ''<<<LARK\<newline>''\<close>

definition interpreter_prompt_b :: string where
  \<open>interpreter_prompt_b =
     ''\<newline>'' @
     ''LARK>>>\<newline>'' @
     ''\<newline>'' @
     ''AST NOTES (structure only):\<newline>''\<close>

definition interpreter_prompt_c :: string where
  \<open>interpreter_prompt_c =
     ''\<newline>'' @
     ''\<newline>'' @
     ''SEMANTICS (what the language should DO):\<newline>'' @
     ''<<<SEM\<newline>''\<close>

definition interpreter_prompt_d :: string where
  \<open>interpreter_prompt_d =
     ''\<newline>'' @
     ''SEM>>>\<newline>'' @
     ''\<newline>'' @
     ''Write ONLY the evaluate function now. Output ONLY code. \<newline>'' @
     ''The function signature must be: function evaluate(ast) { ... }\<newline>'' @
     ''DO NOT export anything - the prelude handles exports.\<newline>'' @
     ''DO NOT create a run function - the prelude handles that.\<newline>'' @
     ''Use AST node `type` strings from the notes above (prefer alias names if present).''\<close>

definition interpreter_prompt :: "string \<Rightarrow> schema \<Rightarrow> string \<Rightarrow> string" where
  \<open>interpreter_prompt grammarText schema semantics =
     interpreter_prompt_a @
     grammarText @
     interpreter_prompt_b @
     JSON_stringify_indent 0 (astNotes schema) @
     interpreter_prompt_c @
     semantics @
     interpreter_prompt_d\<close>

definition prelude :: string where
  \<open>prelude =
     ''/* PRELUDE injected by lang-gen */\<newline>'' @
     ''export function makeRunner(get_parser) {\<newline>'' @
     ''  const parser = get_parser({ propagate_positions: true });\<newline>'' @
     ''  \<newline>'' @
     ''  function treeToJSON(node) {\<newline>'' @
     ''    if (!node) return node;\<newline>'' @
     ''    // Token (has type and value, but not data)\<newline>'' @
     ''    if (node && node.type && '' @ [SQ] @ ''value'' @ [SQ] @ '' in node && !('' @ [SQ] @
     ''data'' @ [SQ] @ '' in node)) {\<newline>'' @
     ''      return { type: node.type, value: node.value };\<newline>'' @
     ''    }\<newline>'' @
     ''    // Tree (has data and children)\<newline>'' @
     ''    if (node && node.data && Array.isArray(node.children)) {\<newline>'' @
     ''      const children = node.children.map(treeToJSON).filter(x => x !== undefined);\<newline>'' @
     ''      return { type: node.data, children };\<newline>'' @
     ''    }\<newline>'' @
     ''    return node;\<newline>'' @
     ''  }\<newline>'' @
     ''  \<newline>'' @
     ''  return async function run(input) {\<newline>'' @
     ''    const cst = parser.parse(input);\<newline>'' @
     ''    const ast = treeToJSON(cst);\<newline>'' @
     ''    // User code below will define evaluate()\<newline>'' @
     ''    const result = await evaluate(ast);\<newline>'' @
     ''    return result;\<newline>'' @
     ''  }\<newline>'' @
     ''}\<newline>'' @
     ''\<newline>'' @
     ''/* USER CODE BELOW */\<newline>''\<close>

definition interpreter_instructions :: string where
  \<open>interpreter_instructions =
     ''\<newline>'' @
     ''You write a self-contained JavaScript module that INTERPRETS programs written in a DSL.\<newline>'' @
     ''Do NOT restate or explain anything; output ONLY code.\<newline>'' @
     ''\<newline>'' @
     ''Input context:\<newline>'' @
     ''- A Lark grammar (strict subset) that defines the DSL'' @ [SQ] @
     ''s syntax.\<newline>'' @
     ''- An auto-derived AST shape description.\<newline>'' @
     ''- A SEMANTICS description that defines what programs should DO.\<newline>'' @
     ''\<newline>'' @
     ''Requirements for your output:\<newline>'' @
     ''- Define ONLY an `evaluate(ast)` function that interprets the AST\<newline>'' @
     ''- DO NOT include the run function or parser setup - that'' @ [SQ] @
     ''s handled by the prelude\<newline>'' @
     ''- DO NOT try to parse or call get_parser - you only work with the AST\<newline>'' @
     ''- The evaluate function should handle all node types from the grammar\<newline>'' @
     ''- Use the node.type field to determine which rule/alias is being evaluated\<newline>'' @
     ''- Token nodes have { type, value } structure\<newline>'' @
     ''- Tree nodes have { type, children } structure\<newline>'' @
     ''- No eval(), no network, deterministic, side-effect free (unless SEMANTICS says otherwise).\<newline>'' @
     ''- Include helpful error messages for unknown node types.\<newline>'' @
     ''\<newline>'' @
     ''CRITICAL for handling operators:\<newline>'' @
     ''- Operators appear as token nodes in the children array between operands\<newline>'' @
     ''- Check token.type (not token.value) for operator tokens like ADD_OP, SUB_OP, MUL_OP, DIV_OP\<newline>'' @
     ''- Example: For "1 + 2", the sum node will have children: [operand1, ADD_OP token, operand2]\<newline>'' @
     ''- When processing binary operations, iterate through children finding alternating operands and operators\<newline>'' @
     ''\<newline>'' @
     ''Keep the code idiomatic, readable, with small helpers for walking the AST.''\<close>

definition fix_instructions_a :: string where
  \<open>fix_instructions_a =
     ''\<newline>'' @
     ''You write a self-contained JavaScript module that INTERPRETS programs written in a DSL.\<newline>'' @
     ''Do NOT restate or explain anything; output ONLY code.\<newline>'' @
     ''\<newline>'' @
     ''CRITICAL: The previous interpreter failed with this error:\<newline>''\<close>

definition fix_instructions_b :: string where
  \<open>fix_instructions_b =
     ''\<newline>'' @
     ''\<newline>'' @
     ''When testing with sample input: "''\<close>

definition fix_instructions_c :: string where
  \<open>fix_instructions_c =
     ''"\<newline>'' @
     ''\<newline>'' @
     ''Common issues to avoid:\<newline>'' @
     ''- The parser may not accept options like '' @ [SQ] @ ''strict'' @ [SQ] @ '' or '' @
     [SQ] @ ''ordered_sets'' @ [SQ] @ '' - don'' @ [SQ] @ ''t pass them\<newline>'' @
     ''- Make sure to only pass supported options to get_parser: propagate_positions, transformer, tree_class, debug\<newline>'' @
     ''- Ensure the evaluate function handles all AST node types properly\<newline>'' @
     ''- Token nodes have { type, value } structure\<newline>'' @
     ''- Tree nodes have { type, children } structure\<newline>'' @
     ''- If the grammar requires semicolons at statement end, consider auto-adding them for convenience\<newline>'' @
     ''- The evaluate function must return the final result, not undefined\<newline>'' @
     ''\<newline>'' @
     ''Requirements for your output:\<newline>'' @
     ''- Define ONLY an `evaluate(ast)` function that interprets the AST\<newline>'' @
     ''- DO NOT include the run function or parser setup - that'' @ [SQ] @
     ''s handled by the prelude\<newline>'' @
     ''- DO NOT try to parse or call get_parser - you only work with the AST\<newline>'' @
     ''- The evaluate function should handle all node types from the grammar\<newline>'' @
     ''- Use the node.type field to determine which rule/alias is being evaluated\<newline>'' @
     ''- Token nodes have { type, value } structure\<newline>'' @
     ''- Tree nodes have { type, children } structure\<newline>'' @
     ''- No eval(), no network, deterministic, side-effect free (unless SEMANTICS says otherwise).\<newline>'' @
     ''- Include helpful error messages for unknown node types.\<newline>'' @
     ''\<newline>'' @
     ''CRITICAL for handling operators:\<newline>'' @
     ''- Operators appear as token nodes in the children array between operands\<newline>'' @
     ''- Check token.type (not token.value) for operator tokens like ADD_OP, SUB_OP, MUL_OP, DIV_OP\<newline>'' @
     ''- Example: For "1 + 2", the sum node will have children: [operand1, ADD_OP token, operand2]\<newline>'' @
     ''- When processing binary operations, iterate through children finding alternating operands and operators\<newline>'' @
     ''\<newline>'' @
     ''Keep the code idiomatic, readable, with small helpers for walking the AST.''\<close>

definition fix_instructions :: "string \<Rightarrow> string \<Rightarrow> string" where
  \<open>fix_instructions errorMessage sampleCode =
     fix_instructions_a @
     errorMessage @
     fix_instructions_b @
     sampleCode @
     fix_instructions_c\<close>

definition user_fix_instructions_a :: string where
  \<open>user_fix_instructions_a =
     ''\<newline>'' @
     ''You write a self-contained JavaScript module that INTERPRETS programs written in a DSL.\<newline>'' @
     ''Do NOT restate or explain anything; output ONLY code.\<newline>'' @
     ''\<newline>'' @
     ''CRITICAL: The previous interpreter failed with this error:\<newline>''\<close>

definition user_fix_instructions_b :: string where
  \<open>user_fix_instructions_b =
     ''\<newline>'' @
     ''\<newline>'' @
     ''When testing with sample input: "''\<close>

definition user_fix_instructions_c :: string where
  \<open>user_fix_instructions_c =
     ''"\<newline>'' @
     ''\<newline>'' @
     ''USER'' @ [SQ] @ ''S FIX INSTRUCTIONS:\<newline>''\<close>

definition user_fix_instructions_d :: string where
  \<open>user_fix_instructions_d =
     ''\<newline>'' @
     ''\<newline>'' @
     ''CURRENT INTERPRETER CODE THAT FAILED:\<newline>'' @
     ''<<<CURRENT_CODE\<newline>''\<close>

definition user_fix_instructions_e :: string where
  \<open>user_fix_instructions_e =
     ''\<newline>'' @
     ''CURRENT_CODE>>>\<newline>'' @
     ''\<newline>'' @
     ''The user has specifically requested the above fixes. Make sure to address their concerns while fixing the error.\<newline>'' @
     ''\<newline>'' @
     ''Common issues to avoid:\<newline>'' @
     ''- The parser may not accept options like '' @ [SQ] @ ''strict'' @ [SQ] @ '' or '' @
     [SQ] @ ''ordered_sets'' @ [SQ] @ '' - don'' @ [SQ] @ ''t pass them\<newline>'' @
     ''- Make sure to only pass supported options to get_parser: propagate_positions, transformer, tree_class, debug\<newline>'' @
     ''- Ensure the evaluate function handles all AST node types properly\<newline>'' @
     ''- Token nodes have { type, value } structure\<newline>'' @
     ''- Tree nodes have { type, children } structure\<newline>'' @
     ''- If the grammar requires semicolons at statement end, consider auto-adding them for convenience\<newline>'' @
     ''- The evaluate function must return the final result, not undefined\<newline>'' @
     ''\<newline>'' @
     ''Requirements for your output:\<newline>'' @
     ''- Define ONLY an `evaluate(ast)` function that interprets the AST\<newline>'' @
     ''- DO NOT include the run function or parser setup - that'' @ [SQ] @
     ''s handled by the prelude\<newline>'' @
     ''- DO NOT try to parse or call get_parser - you only work with the AST\<newline>'' @
     ''- The evaluate function should handle all node types from the grammar\<newline>'' @
     ''- Use the node.type field to determine which rule/alias is being evaluated\<newline>'' @
     ''- Token nodes have { type, value } structure\<newline>'' @
     ''- Tree nodes have { type, children } structure\<newline>'' @
     ''- No eval(), no network, deterministic, side-effect free (unless SEMANTICS says otherwise).\<newline>'' @
     ''- Include helpful error messages for unknown node types.\<newline>'' @
     ''\<newline>'' @
     ''CRITICAL for handling operators:\<newline>'' @
     ''- Operators appear as token nodes in the children array between operands\<newline>'' @
     ''- Check token.type (not token.value) for operator tokens like ADD_OP, SUB_OP, MUL_OP, DIV_OP\<newline>'' @
     ''- Example: For "1 + 2", the sum node will have children: [operand1, ADD_OP token, operand2]\<newline>'' @
     ''- When processing binary operations, iterate through children finding alternating operands and operators\<newline>'' @
     ''\<newline>'' @
     ''Keep the code idiomatic, readable, with small helpers for walking the AST.''\<close>

definition user_fix_instructions :: "string \<Rightarrow> string \<Rightarrow> string \<Rightarrow> string \<Rightarrow> string" where
  \<open>user_fix_instructions errorMessage sampleCode userInstructions currentCode =
     user_fix_instructions_a @
     errorMessage @
     user_fix_instructions_b @
     sampleCode @
     user_fix_instructions_c @
     userInstructions @
     user_fix_instructions_d @
     currentCode @
     user_fix_instructions_e\<close>

text \<open>\<^verbatim>\<open>response.output_text || response.output || ''\<close>.\<close>

definition response_code :: "response \<Rightarrow> string" where
  "response_code r =
     (if output_text r \<noteq> [] then output_text r
      else if output_field r \<noteq> [] then output_field r
      else [])"

definition plain_request :: "ctx \<Rightarrow> string \<Rightarrow> string \<Rightarrow> request" where
  "plain_request c instructions prompt =
     \<lparr>req_model = model_name c, req_stream = False, req_instructions = instructions,
      req_input = prompt, req_tool = None\<rparr>"

text \<open>
  In all three functions the instructions are bound with \<^verbatim>\<open>const\<close>, and with a sample the
  statement \<^verbatim>\<open>instructions += ...\<close> assigns to that binding: the function then throws a
  \<^verbatim>\<open>TypeError\<close> before it calls the service.
\<close>

definition const_assignment :: string where
  "const_assignment = ''Assignment to constant variable.''"

definition generateInterpreter ::
  "externals \<Rightarrow> ctx \<Rightarrow> string \<Rightarrow> schema \<Rightarrow> string \<Rightarrow> world \<Rightarrow> (string + string) \<times> world" where
  "generateInterpreter ext c grammarText schema semantics w =
     (case getCached c ''interpreter'' (interpreter_cache_input grammarText schema semantics) w of
        Some cached \<Rightarrow> (Inr (entry_output cached), w)
      | None \<Rightarrow>
          if GLOBAL_SAMPLE c \<noteq> [] then (Inl const_assignment, w)
          else
            (case call_response ext
                    (plain_request c interpreter_instructions
                       (interpreter_prompt grammarText schema semantics)) w of
               (Inl msg, w1) \<Rightarrow> (Inl msg, w1)
             | (Inr response, w1) \<Rightarrow>
                 (Inr (prelude @ [NL] @ response_code response),
                  saveCache c ''interpreter''
                    (interpreter_cache_input grammarText schema semantics)
                    (prelude @ [NL] @ response_code response) w1)))"

definition regenerateInterpreterWithFix ::
  "externals \<Rightarrow> ctx \<Rightarrow> string \<Rightarrow> schema \<Rightarrow> string \<Rightarrow> string \<Rightarrow> string \<Rightarrow> world \<Rightarrow>
   (string + string) \<times> world" where
  "regenerateInterpreterWithFix ext c grammarText schema semantics errorMessage sampleCode w =
     (if GLOBAL_SAMPLE c \<noteq> [] then (Inl const_assignment, w)
      else
        (case call_response ext
                (plain_request c (fix_instructions errorMessage sampleCode)
                   (interpreter_prompt grammarText schema semantics)) w of
           (Inl msg, w1) \<Rightarrow> (Inl msg, w1)
         | (Inr response, w1) \<Rightarrow> (Inr (prelude @ [NL] @ response_code response), w1)))"

definition regenerateInterpreterWithUserFix ::
  "externals \<Rightarrow> ctx \<Rightarrow> string \<Rightarrow> schema \<Rightarrow> string \<Rightarrow> string \<Rightarrow> string \<Rightarrow> string \<Rightarrow> string \<Rightarrow>
   world \<Rightarrow> (string + string) \<times> world" where
  "regenerateInterpreterWithUserFix ext c grammarText schema semantics errorMessage sampleCode
      currentCode userInstructions w =
     (if GLOBAL_SAMPLE c \<noteq> [] then (Inl const_assignment, w)
      else
        (case call_response ext
                (plain_request c
                   (user_fix_instructions errorMessage sampleCode userInstructions currentCode)
                   (interpreter_prompt grammarText schema semantics)) w of
           (Inl msg, w1) \<Rightarrow> (Inl msg, w1)
         | (Inr response, w1) \<Rightarrow> (Inr (prelude @ [NL] @ response_code response), w1)))"

section \<open>Step 6: testing and repairing the interpreter (\<^verbatim>\<open>testGeneratedCode\<close>)\<close>

text \<open>What \<^verbatim>\<open>testGeneratedCode\<close> returns: \<^verbatim>\<open>result\<close> and \<^verbatim>\<open>error\<close> are \<open>None\<close> and \<^verbatim>\<open>continued\<close> is
  \<open>False\<close> when the object has no such field.\<close>

record test_result =
  success :: bool
  result :: "string option"
  error :: "string option"
  continued :: bool

text \<open>How a call ends: it returns an object, it returns nothing (the loops fall through when
  the retry bound is zero), the process exits with a status, the call throws, or a question
  to the operator is never answered.\<close>

datatype outcome =
  Returned test_result
| ReturnedUndefined
| Exited nat
| Threw string
| Blocked

text \<open>\<^verbatim>\<open>promptUser\<close>: the next line the operator types, trimmed.\<close>

definition promptUser :: "world \<Rightarrow> (string \<times> world) option" where
  "promptUser w =
     (case answers w of
        [] \<Rightarrow> None
      | answer # rest \<Rightarrow> Some (trim answer, w\<lparr>answers := rest\<rparr>))"

definition absolute :: "ctx \<Rightarrow> string \<Rightarrow> string" where
  "absolute c file = (if prefix ''/'' file then file else path_join [cwd c, file])"

text \<open>
  The \<^verbatim>\<open>try\<close> block of the first test: the parser module is loaded anew (its entry in the
  \<^verbatim>\<open>require\<close> cache is deleted first), the interpreter module is imported under an address
  that no earlier import has used (the time in milliseconds is part of it, and two imports
  are taken to happen at different times), and the sample is run. \<open>Inr\<close> is the result,
  \<open>Inl\<close> the message of the error that the \<^verbatim>\<open>catch\<close> block receives.
\<close>

definition first_test :: "externals \<Rightarrow> world \<Rightarrow> string \<Rightarrow> string \<Rightarrow> string \<Rightarrow> string + string" where
  "first_test ext w absoluteParserFile absoluteInterpreterFile sampleCode =
     (case require_parser ext (files w absoluteParserFile) of
        Inl msg \<Rightarrow> Inl msg
      | Inr has_get_parser \<Rightarrow>
          if \<not> has_get_parser then Inl ''Parser module missing get_parser function''
          else
            (case import_interpreter ext (files w absoluteInterpreterFile) of
               Some msg \<Rightarrow> Inl msg
             | None \<Rightarrow>
                 run_sample ext (files w absoluteParserFile) (files w absoluteInterpreterFile)
                   sampleCode))"

text \<open>
  The end of a fix attempt, after the regeneration: the new code replaces the interpreter
  file (an error of that write is the error of the attempt) and the module is imported
  anew. Then \<^verbatim>\<open>makeRunnerFixed(get_parser)\<close> is evaluated. The name \<^verbatim>\<open>get_parser\<close> is
  declared with \<^verbatim>\<open>const\<close> inside the \<^verbatim>\<open>try\<close> block of the first test, and the fix attempts
  run in its \<^verbatim>\<open>catch\<close> block, where that name is not in scope: evaluating the argument
  throws a \<^verbatim>\<open>ReferenceError\<close>, before the sample is run. So an attempt always ends in an
  error (\<open>Inl\<close>); \<open>Inr\<close>, the result of a rerun, is kept in the type for the branch of the
  loops that would return it.
\<close>

definition retest :: "externals \<Rightarrow> string \<Rightarrow> string \<Rightarrow> world \<Rightarrow> (string + string) \<times> world" where
  "retest ext absoluteInterpreterFile fixedCode w =
     (case write_error w absoluteInterpreterFile of
        Some msg \<Rightarrow> (Inl msg, w)
      | None \<Rightarrow>
          (let w1 = w\<lparr>files := (files w)(absoluteInterpreterFile \<mapsto> fixedCode)\<rparr>
           in case import_interpreter ext (files w1 absoluteInterpreterFile) of
                Some msg \<Rightarrow> (Inl msg, w1)
              | None \<Rightarrow> (Inl ''get_parser is not defined'', w1)))"

definition auto_fix_attempt ::
  "externals \<Rightarrow> ctx \<Rightarrow> string \<Rightarrow> string \<Rightarrow> schema \<Rightarrow> string \<Rightarrow> string \<Rightarrow> string \<Rightarrow> world \<Rightarrow>
   (string + string) \<times> world" where
  "auto_fix_attempt ext c absoluteInterpreterFile grammarText schema semantics errorMessage
      sampleCode w =
     (case regenerateInterpreterWithFix ext c grammarText schema semantics errorMessage
             sampleCode w of
        (Inl msg, w1) \<Rightarrow> (Inl msg, w1)
      | (Inr fixedCode, w1) \<Rightarrow> retest ext absoluteInterpreterFile fixedCode w1)"

definition user_fix_attempt ::
  "externals \<Rightarrow> ctx \<Rightarrow> string \<Rightarrow> string \<Rightarrow> schema \<Rightarrow> string \<Rightarrow> string \<Rightarrow> string \<Rightarrow> string \<Rightarrow>
   string \<Rightarrow> world \<Rightarrow> (string + string) \<times> world" where
  "user_fix_attempt ext c absoluteInterpreterFile grammarText schema semantics errorMessage
      sampleCode currentInterpreterCode userInstructions w =
     (case regenerateInterpreterWithUserFix ext c grammarText schema semantics errorMessage
             sampleCode currentInterpreterCode userInstructions w of
        (Inl msg, w1) \<Rightarrow> (Inl msg, w1)
      | (Inr fixedCode, w1) \<Rightarrow> retest ext absoluteInterpreterFile fixedCode w1)"

text \<open>The \<^verbatim>\<open>for\<close> loop of the automatic fix; \<open>attempt\<close> counts from 1.\<close>

function auto_fix_loop ::
  "externals \<Rightarrow> ctx \<Rightarrow> string \<Rightarrow> string \<Rightarrow> schema \<Rightarrow> string \<Rightarrow> string \<Rightarrow> string \<Rightarrow> nat \<Rightarrow> nat \<Rightarrow>
   world \<Rightarrow> outcome \<times> world" where
  "auto_fix_loop ext c absoluteInterpreterFile grammarText schema semantics errorMessage
      sampleCode maxRetries attempt w =
     (if attempt \<le> maxRetries then
        (case auto_fix_attempt ext c absoluteInterpreterFile grammarText schema semantics
                errorMessage sampleCode w of
           (Inr resultFixed, w1) \<Rightarrow>
             (Returned \<lparr>success = True, result = Some resultFixed, error = None,
                        continued = False\<rparr>, w1)
         | (Inl fixError, w1) \<Rightarrow>
             if attempt = maxRetries then
               (Returned \<lparr>success = False, result = None, error = Some fixError,
                          continued = False\<rparr>, w1)
             else
               auto_fix_loop ext c absoluteInterpreterFile grammarText schema semantics
                 errorMessage sampleCode maxRetries (Suc attempt) w1)
      else (ReturnedUndefined, w))"
  by pat_completeness auto
termination
  by (relation "measure (\<lambda>(ext, c, ifile, g, schema, sem, err, sample, maxRetries, attempt, w).
        Suc maxRetries - attempt)") auto

declare auto_fix_loop.simps [simp del]

text \<open>The \<^verbatim>\<open>for\<close> loop of the fix with instructions. When the attempts are used up the
  operator is asked again: \<open>Again\<close> is the answer \<^verbatim>\<open>1\<close>, after which \<^verbatim>\<open>testGeneratedCode\<close>
  calls itself.\<close>

datatype fix_step = Done outcome | Again

function user_fix_loop ::
  "externals \<Rightarrow> ctx \<Rightarrow> string \<Rightarrow> string \<Rightarrow> schema \<Rightarrow> string \<Rightarrow> string \<Rightarrow> string \<Rightarrow> string \<Rightarrow>
   string \<Rightarrow> nat \<Rightarrow> nat \<Rightarrow> world \<Rightarrow> fix_step \<times> world" where
  "user_fix_loop ext c absoluteInterpreterFile grammarText schema semantics errorMessage
      sampleCode currentInterpreterCode userInstructions maxRetries attempt w =
     (if attempt \<le> maxRetries then
        (case user_fix_attempt ext c absoluteInterpreterFile grammarText schema semantics
                errorMessage sampleCode currentInterpreterCode userInstructions w of
           (Inr resultFixed, w1) \<Rightarrow>
             (Done (Returned \<lparr>success = True, result = Some resultFixed, error = None,
                              continued = False\<rparr>), w1)
         | (Inl fixError, w1) \<Rightarrow>
             if attempt = maxRetries then
               (case promptUser w1 of
                  None \<Rightarrow> (Done Blocked, w1)
                | Some (retryChoice, w2) \<Rightarrow>
                    if retryChoice = ''1'' then (Again, w2)
                    else if retryChoice = ''2'' then
                      (Done (Returned \<lparr>success = False, result = None,
                                       error = Some fixError, continued = True\<rparr>), w2)
                    else (Done (Exited 1), w2))
             else
               user_fix_loop ext c absoluteInterpreterFile grammarText schema semantics
                 errorMessage sampleCode currentInterpreterCode userInstructions maxRetries
                 (Suc attempt) w1)
      else (Done ReturnedUndefined, w))"
  by pat_completeness auto
termination
  by (relation "measure (\<lambda>(ext, c, ifile, g, schema, sem, err, sample, code, instr, maxRetries,
        attempt, w). Suc maxRetries - attempt)") auto

declare user_fix_loop.simps [simp del]

lemma answers_retest: "answers (snd (retest ext ifile code w)) = answers w"
  by (simp add: retest_def Let_def split: option.splits)

lemma answers_user_fix_attempt:
  "answers (snd (user_fix_attempt ext c ifile g schema sem err sample code instr w)) = answers w"
  by (auto simp: user_fix_attempt_def regenerateInterpreterWithUserFix_def call_response_def
      answers_retest split: sum.splits prod.splits)

lemma answers_user_fix_loop:
  "length (answers (snd (user_fix_loop ext c ifile g schema sem err sample code instr maxRetries
      attempt w))) \<le> length (answers w)"
proof (induction ext c ifile g schema sem err sample code instr maxRetries attempt w
    rule: user_fix_loop.induct)
  case (1 ext c ifile g schema sem err sample code instr maxRetries attempt w)
  show ?case
  proof (cases "attempt \<le> maxRetries")
    case False
    then show ?thesis by (subst user_fix_loop.simps) simp
  next
    case True
    obtain r w1 where att:
      "user_fix_attempt ext c ifile g schema sem err sample code instr w = (r, w1)"
      by (cases "user_fix_attempt ext c ifile g schema sem err sample code instr w")
    then have w1: "answers w1 = answers w"
      using answers_user_fix_attempt [of ext c ifile g schema sem err sample code instr w]
      by simp
    show ?thesis
    proof (cases r)
      case (Inr res)
      with True att w1 show ?thesis by (subst user_fix_loop.simps) simp
    next
      case (Inl fixError)
      show ?thesis
      proof (cases "attempt = maxRetries")
        case True
        with \<open>attempt \<le> maxRetries\<close> att Inl w1 show ?thesis
          by (subst user_fix_loop.simps)
             (auto simp: promptUser_def split: list.splits)
      next
        case False
        from "1.IH" [OF True att [symmetric] _ False] Inl
        have "length (answers (snd (user_fix_loop ext c ifile g schema sem err sample code instr
            maxRetries (Suc attempt) w1))) \<le> length (answers w1)"
          by simp
        with True att Inl w1 False show ?thesis
          by (subst user_fix_loop.simps) simp
      qed
    qed
  qed
qed

lemma promptUser_shorter:
  assumes "promptUser w = Some (line, w1)"
  shows "length (answers w1) < length (answers w)"
  using assms by (auto simp: promptUser_def split: list.splits)

function testGeneratedCode ::
  "externals \<Rightarrow> ctx \<Rightarrow> string \<Rightarrow> string \<Rightarrow> string \<Rightarrow> string \<Rightarrow> string \<Rightarrow> schema \<Rightarrow> string \<Rightarrow> nat \<Rightarrow>
   world \<Rightarrow> outcome \<times> world" where
  "testGeneratedCode ext c parserFile interpreterFile sampleCode spec grammarText schema
      semantics maxRetries w =
     (case first_test ext w (absolute c parserFile) (absolute c interpreterFile) sampleCode of
        Inr res \<Rightarrow>
          (Returned \<lparr>success = True, result = Some res, error = None, continued = False\<rparr>, w)
      | Inl errorMessage \<Rightarrow>
          (case files w (absolute c interpreterFile) of
             None \<Rightarrow>
               (Threw (''ENOENT: no such file or directory, open '' @ [SQ] @
                       absolute c interpreterFile @ [SQ]), w)
           | Some currentInterpreterCode \<Rightarrow>
               (case promptUser w of
                  None \<Rightarrow> (Blocked, w)
                | Some (choice, w1) \<Rightarrow>
                    if choice = ''1'' then
                      (case promptUser w1 of
                         None \<Rightarrow> (Blocked, w1)
                       | Some (userInstructions, w2) \<Rightarrow>
                           (case user_fix_loop ext c (absolute c interpreterFile) grammarText
                                   schema semantics errorMessage sampleCode
                                   currentInterpreterCode userInstructions maxRetries 1 w2 of
                              (Done out, w3) \<Rightarrow> (out, w3)
                            | (Again, w3) \<Rightarrow>
                                testGeneratedCode ext c parserFile interpreterFile sampleCode
                                  spec grammarText schema semantics maxRetries w3))
                    else if choice = ''2'' then
                      auto_fix_loop ext c (absolute c interpreterFile) grammarText schema
                        semantics errorMessage sampleCode maxRetries 1 w1
                    else if choice = ''3'' then
                      (Returned \<lparr>success = False, result = None, error = Some errorMessage,
                                 continued = True\<rparr>, w1)
                    else (Exited 1, w1))))"
  by pat_completeness auto
termination
proof (relation "measure (\<lambda>(ext, c, pf, inf, sample, spec, g, schema, sem, maxRetries, w).
    length (answers w))")
  fix ext :: externals and c :: ctx and parserFile interpreterFile sampleCode spec grammarText
    and schema :: schema and semantics and maxRetries :: nat and w :: world
    and errorMessage currentInterpreterCode and x :: "string \<times> world" and choice and w1 :: world
    and y :: "string \<times> world" and userInstructions and w2 :: world
    and st :: fix_step and w3 :: world
  assume "promptUser w = Some x" "(choice, w1) = x" "promptUser w1 = Some y"
    "(userInstructions, w2) = y"
    and loop: "(st, w3) = user_fix_loop ext c (absolute c interpreterFile) grammarText schema
        semantics errorMessage sampleCode currentInterpreterCode userInstructions maxRetries 1
        w2"
  then have "length (answers w1) < length (answers w)"
    and "length (answers w2) < length (answers w1)"
    by (auto intro: promptUser_shorter)
  moreover have "length (answers w3) \<le> length (answers w2)"
    using answers_user_fix_loop [of ext c "absolute c interpreterFile" grammarText schema
      semantics errorMessage sampleCode currentInterpreterCode userInstructions maxRetries 1 w2]
      loop by (metis snd_conv)
  ultimately show "((ext, c, parserFile, interpreterFile, sampleCode, spec, grammarText, schema,
      semantics, maxRetries, w3),
      (ext, c, parserFile, interpreterFile, sampleCode, spec, grammarText, schema, semantics,
       maxRetries, w)) \<in> measure (\<lambda>(ext, c, pf, inf, sample, spec, g, schema, sem, maxRetries, w).
    length (answers w))"
    by simp
qed simp

declare testGeneratedCode.simps [simp del]

section \<open>Concrete runs\<close>

text \<open>A process with no environment variable set and no sample, and one that has switched
  cache reads on.\<close>

definition plain_ctx :: ctx where
  "plain_ctx =
     \<lparr>process_env = Map.empty, cwd = ''/work'', module_dir = ''/opt/lang-gen'',
      GLOBAL_SAMPLE = []\<rparr>"

definition reading_ctx :: ctx where
  "reading_ctx =
     \<lparr>process_env = [''LANG_GEN_READ_CACHE'' \<mapsto> ''true''], cwd = ''/work'',
      module_dir = ''/opt/lang-gen'', GLOBAL_SAMPLE = []\<rparr>"

text \<open>A process that has switched cache reads off and left cache writes on.\<close>

definition writing_ctx :: ctx where
  "writing_ctx =
     \<lparr>process_env = [''LANG_GEN_READ_CACHE'' \<mapsto> ''false''], cwd = ''/work'',
      module_dir = ''/opt/lang-gen'', GLOBAL_SAMPLE = []\<rparr>"

text \<open>A world with an empty cache directory, no files, no call made and no operator input,
  where every write succeeds.\<close>

definition fresh_world :: world where
  "fresh_world =
     \<lparr>cache_dir = Map.empty, files = Map.empty, requests = [], spawns = [], answers = [],
      now = ''2025-01-01T00:00:00.000Z'', cache_writable = (\<lambda>name. True),
      write_error = (\<lambda>path. None)\<rparr>"

text \<open>The same world with a cache directory in which no file can be written.\<close>

definition unwritable_world :: world where
  "unwritable_world = fresh_world\<lparr>cache_writable := (\<lambda>name. False)\<rparr>"

text \<open>Collaborators that answer streamed calls by their position alone; everything else is
  unavailable.\<close>

definition streaming_only :: "(nat \<Rightarrow> string + event list) \<Rightarrow> externals" where
  "streaming_only streams =
     \<lparr>create_stream = (\<lambda>n req. streams n),
      create_response = (\<lambda>n req. Inl ''service unavailable''),
      lark_js = (\<lambda>n args grammar. SpawnError ''ENOENT'' ''spawn lark-js ENOENT''),
      require_parser = (\<lambda>file. Inl ''Cannot find module''),
      import_interpreter = (\<lambda>file. None),
      run_sample = (\<lambda>parser code sample. Inl ''not available'')\<rparr>"

text \<open>Three replies that fail the local checks: white space only, a single-quoted literal,
  and a literal opened with a double quote and closed with a single one.\<close>

definition three_failures :: "nat \<Rightarrow> string + event list" where
  \<open>three_failures n =
     (if n = 0 then Inr [TextEvent ''  '', OtherEvent, TextEvent ''\<newline>'']
      else if n = 1 then Inr [TextEvent ''start: '', TextEvent ([SQ] @ ''a'' @ [SQ])]
      else Inr [TextEvent ''start: "a'', TextEvent [SQ], OtherEvent])\<close>



definition always_replies :: "string \<Rightarrow> nat \<Rightarrow> string + event list" where
  "always_replies text n = Inr [TextEvent text]"

text \<open>A service whose first streamed reply is an error event and whose later replies are a
  given text, and collaborators that answer every call that is not streamed with the same
  code.\<close>

definition fails_then_replies :: "string \<Rightarrow> string \<Rightarrow> nat \<Rightarrow> string + event list" where
  "fails_then_replies msg text n = (if n = 0 then Inr [ErrorEvent msg] else Inr [TextEvent text])"

definition responding_only :: "string \<Rightarrow> externals" where
  "responding_only code =
     \<lparr>create_stream = (\<lambda>n req. Inl ''service unavailable''),
      create_response = (\<lambda>n req. Inr \<lparr>output_text = code, output_field = []\<rparr>),
      lark_js = (\<lambda>n args grammar. SpawnError ''ENOENT'' ''spawn lark-js ENOENT''),
      require_parser = (\<lambda>file. Inl ''Cannot find module''),
      import_interpreter = (\<lambda>file. None),
      run_sample = (\<lambda>parser code sample. Inl ''not available'')\<rparr>"

definition seven :: string where
  "seven = ''function evaluate(ast) { return 7; }''"

text \<open>A compiler that always exits with status zero and leaves a given parser file (or
  none), and three such files: a small one with a \<^verbatim>\<open>get_parser\<close> function of the expected
  shape, one as the compiler writes it, with the two options in its data, and one with the
  same data whose \<^verbatim>\<open>get_parser\<close> function is laid out with other spacing.\<close>

definition compiling_only :: "string option \<Rightarrow> externals" where
  "compiling_only produced =
     \<lparr>create_stream = (\<lambda>n req. Inl ''service unavailable''),
      create_response = (\<lambda>n req. Inl ''service unavailable''),
      lark_js = (\<lambda>n args grammar. Exit 0 [] produced),
      require_parser = (\<lambda>file. Inl ''Cannot find module''),
      import_interpreter = (\<lambda>file. None),
      run_sample = (\<lambda>parser code sample. Inl ''not available'')\<rparr>"

definition parser_with_get_parser :: string where
  \<open>parser_with_get_parser =
     ''const DATA = {};\<newline>'' @
     ''function get_parser(options = {}) {\<newline>'' @
     ''  return Lark._load_from_dict({ data: DATA, memo: MEMO, ...options });\<newline>'' @
     ''}\<newline>'' @
     ''module.exports = { get_parser };\<newline>''\<close>

definition parser_data :: string where
  \<open>parser_data =
     ''var DATA = {"options": {"debug": false, "strict": false, "ordered_sets": true}};\<newline>''\<close>

definition parser_exports :: string where
  \<open>parser_exports = ''\<newline>module.exports = { get_parser };\<newline>''\<close>

definition parser_expected_layout :: string where
  \<open>parser_expected_layout =
     parser_data @
     ''function get_parser(options = {}) {\<newline>'' @
     ''  if (\<newline>'' @
     ''    options.transformer &&\<newline>'' @
     ''    options.transformer.constructor.name === "object"\<newline>'' @
     ''  ) {\<newline>'' @
     ''    options.transformer = Transformer.fromObj(options.transformer);\<newline>'' @
     ''  }\<newline>'' @
     ''\<newline>'' @
     ''  return Lark._load_from_dict({ data: DATA, memo: MEMO, ...options });\<newline>'' @
     ''}'' @
     parser_exports\<close>

definition parser_other_layout :: string where
  \<open>parser_other_layout =
     parser_data @
     ''function get_parser(options={}) {\<newline>'' @
     ''  return Lark._load_from_dict({data: DATA, memo: MEMO, ...options});\<newline>'' @
     ''}'' @
     parser_exports\<close>

text \<open>A compiler that exits with status 1 on every run, with a message on its error
  stream.\<close>

definition failing_compiler :: externals where
  "failing_compiler =
     \<lparr>create_stream = (\<lambda>n req. Inl ''service unavailable''),
      create_response = (\<lambda>n req. Inl ''service unavailable''),
      lark_js = (\<lambda>n args grammar. Exit 1 ''Unexpected token'' None),
      require_parser = (\<lambda>file. Inl ''Cannot find module''),
      import_interpreter = (\<lambda>file. None),
      run_sample = (\<lambda>parser code sample. Inl ''not available'')\<rparr>"

text \<open>
  A run of the repair loop: a parser file and an interpreter file whose \<^verbatim>\<open>evaluate\<close> throws
  are in place, the modules load, the sample fails with the interpreter as it is and gives 7
  with the interpreter that the service writes.
\<close>

definition broken_body :: string where
  \<open>broken_body =
     ''function evaluate(ast) { const t = ast.type; '' @
     ''throw new Error("Unknown node type: " + t); }''\<close>

definition repairing :: externals where
  "repairing =
     \<lparr>create_stream = (\<lambda>n req. Inl ''service unavailable''),
      create_response = (\<lambda>n req. Inr \<lparr>output_text = seven, output_field = []\<rparr>),
      lark_js = (\<lambda>n args grammar. SpawnError ''ENOENT'' ''spawn lark-js ENOENT''),
      require_parser =
        (\<lambda>file. case file of None \<Rightarrow> Inl ''Cannot find module'' | Some code \<Rightarrow> Inr True),
      import_interpreter =
        (\<lambda>file. case file of None \<Rightarrow> Some ''Cannot find module'' | Some code \<Rightarrow> None),
      run_sample =
        (\<lambda>parser code sample.
           if code = Some (prelude @ [NL] @ seven) then Inr ''7''
           else Inl ''Unknown node type: foo'')\<rparr>"

definition broken_world :: "string list \<Rightarrow> world" where
  "broken_world lines =
     fresh_world\<lparr>files := [''/work/out/parser.cjs'' \<mapsto> parser_with_get_parser,
                             ''/work/out/interpreter.mjs'' \<mapsto> prelude @ [NL] @ broken_body],
                  answers := lines\<rparr>"

definition calc_fix_request :: request where
  "calc_fix_request =
     plain_request plain_ctx (fix_instructions ''Unknown node type: foo'' ''1+2*3'')
       (interpreter_prompt calc_grammar (extractASTSchema calc_grammar) ''evaluate'')"

section \<open>Facts about paths\<close>

lemmas path_eval = path_join_def path_normalize_def normalize_step_def Let_def

lemma path_join_examples:
  "path_join [''/work'', ''out/parser.cjs''] = ''/work/out/parser.cjs''"
  "path_join [''/work'', ''out/interpreter.mjs''] = ''/work/out/interpreter.mjs''"
  "path_join [''out'', ''grammar.lark''] = ''out/grammar.lark''"
  "path_join [''out'', ''parser.cjs''] = ''out/parser.cjs''"
  "path_join [''./output'', ''grammar.lark''] = ''output/grammar.lark''"
  "path_join [''./output'', ''parser.cjs''] = ''output/parser.cjs''"
  "path_join [''/work'', ''venv'', ''bin'', ''lark-js''] = ''/work/venv/bin/lark-js''"
  "path_join [''/opt/lang-gen'', ''venv'', ''bin'', ''lark-js''] =
     ''/opt/lang-gen/venv/bin/lark-js''"
  "path_join [''/work'', ''../out//x/./y/''] = ''/out/x/y/''"
  "path_join ['''', ''''] = ''.''"
  "path_join [''a'', ''../..'', ''b''] = ''../b''"
  by (simp_all add: path_eval)

section \<open>Facts about the retry loop of grammar synthesis\<close>

lemma grammar_attempt_fail:
  assumes "grammar_text_of (create_stream ext (length (requests w)) (grammar_request c spec errs))
             = Inl msg"
  shows "grammar_attempt ext c spec errs w =
           (Inl msg, w\<lparr>requests := requests w @ [grammar_request c spec errs]\<rparr>)"
  using assms by (simp add: grammar_attempt_def call_stream_def)

lemma grammar_loop_failed_attempt:
  assumes "attempts < maxRetries"
    and "grammar_attempt ext c spec errs w = (Inl msg, w1)"
  shows "grammar_loop ext c spec maxRetries attempts errs w =
           (if Suc attempts \<ge> maxRetries then (Inl (exhausted_message maxRetries msg), w1)
            else grammar_loop ext c spec maxRetries (Suc attempts) (errs @ [msg]) w1)"
  using assms by (subst grammar_loop.simps) simp



lemma string_of_nat_3: "string_of_nat 3 = ''3''"
  by (subst string_of_nat.simps) simp


lemma enumerate_snoc: "enumerate n (xs @ [x]) = enumerate n xs @ [(n + length xs, x)]"
  by (simp add: enumerate_append_eq)

lemma grammar_instructions_last_error:
  "sublist (''Attempt '' @ string_of_nat (Suc (length errs)) @ '': '' @ msg @ [NL])
     (req_instructions (grammar_request c spec (errs @ [msg])))"
proof -
  let ?line = "''Attempt '' @ string_of_nat (Suc (length errs)) @ '': '' @ msg @ [NL]"
  have "concat (map attempt_line (enumerate 0 (errs @ [msg]))) =
        concat (map attempt_line (enumerate 0 errs)) @ ?line"
    by (simp add: enumerate_snoc attempt_line_def)
  then have "grammar_instructions c (errs @ [msg]) =
      (grammar_instructions_base @ sample_section c @ errors_header @
       concat (map attempt_line (enumerate 0 errs))) @ ?line @ errors_footer"
    by (simp add: grammar_instructions_def errors_section_def)
  then have "sublist ?line (grammar_instructions c (errs @ [msg]))"
    unfolding sublist_def by blast
  then show ?thesis
    by (simp add: grammar_request_def)
qed

section \<open>Facts about the local checks\<close>



lemma give_back_le: "give_back q r cs n = Some k \<Longrightarrow> k \<le> n"
  by (induction n) (auto split: if_splits)











section \<open>Facts about the cache\<close>

lemma getCached_saveCache:
  assumes "READ_FROM_CACHE c" and "WRITE_TO_CACHE c" and "cache_writable w (cache_file type input)"
  shows "map_option entry_output (getCached c type input (saveCache c type input out w)) = Some out"
  using assms by (simp add: getCached_def saveCache_def)

lemma cache_writable_saveCache: "cache_writable (saveCache c type input out w) = cache_writable w"
  by (simp add: saveCache_def)

lemma cache_writable_grammar_attempt:
  "cache_writable (snd (grammar_attempt ext c spec errs w)) = cache_writable w"
  by (simp add: grammar_attempt_def call_stream_def cache_writable_saveCache split: sum.splits)

lemma grammar_attempt_cached:
  assumes "READ_FROM_CACHE c" and "WRITE_TO_CACHE c"
    and "cache_writable w (cache_file ''grammar'' (grammar_cache_input spec))"
    and "grammar_attempt ext c spec errs w = (Inr g, w1)"
  shows "map_option entry_output (getCached c ''grammar'' (grammar_cache_input spec) w1) = Some g"
  using assms
  by (auto simp: grammar_attempt_def call_stream_def getCached_def saveCache_def
      split: sum.splits)

lemma grammar_loop_cached:
  assumes "grammar_loop ext c spec maxRetries attempts errs w = (Inr g, w1)"
    and "READ_FROM_CACHE c" and "WRITE_TO_CACHE c"
    and "cache_writable w (cache_file ''grammar'' (grammar_cache_input spec))"
  shows "map_option entry_output (getCached c ''grammar'' (grammar_cache_input spec) w1) = Some g"
  using assms
proof (induction ext c spec maxRetries attempts errs w rule: grammar_loop.induct)
  case (1 ext c spec maxRetries attempts previousErrors w)
  note run = "1.prems"(1) and rw = "1.prems"(2,3) and wr = "1.prems"(4)
  from run have lt: "attempts < maxRetries"
    by (subst (asm) grammar_loop.simps) (simp split: if_splits)
  obtain r w' where att: "grammar_attempt ext c spec previousErrors w = (r, w')"
    by (cases "grammar_attempt ext c spec previousErrors w")
  from cache_writable_grammar_attempt [of ext c spec previousErrors w] att wr
  have wr': "cache_writable w' (cache_file ''grammar'' (grammar_cache_input spec))"
    by simp
  show ?case
  proof (cases r)
    case (Inr g')
    with run lt att have "g' = g" and "w' = w1"
      by (subst (asm) grammar_loop.simps, simp)+
    with att Inr show ?thesis
      using grammar_attempt_cached [OF rw wr] by blast
  next
    case (Inl msg)
    with run lt att have more: "\<not> Suc attempts \<ge> maxRetries"
      and rec: "grammar_loop ext c spec maxRetries (Suc attempts) (previousErrors @ [msg]) w' =
                 (Inr g, w1)"
      by (subst (asm) grammar_loop.simps, simp split: if_splits)+
    from "1.IH" [OF lt att [symmetric] _ more rec rw wr'] Inl show ?thesis
      by simp
  qed
qed

lemma generateGrammar_hit_again:
  assumes "READ_FROM_CACHE c" and "WRITE_TO_CACHE c"
    and "getCached c ''grammar'' (grammar_cache_input spec) w \<noteq> None \<or>
         cache_writable w (cache_file ''grammar'' (grammar_cache_input spec))"
    and "generateGrammar ext c spec maxRetries w = (Inr g, w1)"
  shows "generateGrammar ext2 c spec maxRetries2 w1 = (Inr g, w1)"
proof (cases "getCached c ''grammar'' (grammar_cache_input spec) w")
  case (Some e)
  with assms(4) show ?thesis
    by (auto simp: generateGrammar_def)
next
  case None
  with assms(3) have wr: "cache_writable w (cache_file ''grammar'' (grammar_cache_input spec))"
    by simp
  from None assms(4) have "grammar_loop ext c spec maxRetries 0 [] w = (Inr g, w1)"
    by (simp add: generateGrammar_def)
  from grammar_loop_cached [OF this assms(1,2) wr] show ?thesis
    by (auto simp: generateGrammar_def)
qed

lemma generateExampleProgram_hit_again:
  assumes "READ_FROM_CACHE c" and "WRITE_TO_CACHE c"
    and "getCached c ''example'' (example_cache_input spec grammarText semantics) w \<noteq> None \<or>
         cache_writable w (cache_file ''example''
           (example_cache_input spec grammarText semantics)) \<and>
         (\<exists>code. fst (example_attempt ext c spec grammarText semantics w) = Inr code)"
    and "generateExampleProgram ext c spec grammarText semantics w = (e, w1)"
  shows "generateExampleProgram ext2 c spec grammarText semantics w1 = (e, w1)"
proof (cases "getCached c ''example'' (example_cache_input spec grammarText semantics) w")
  case (Some entry)
  with assms(4) show ?thesis
    by (auto simp: generateExampleProgram_def)
next
  case None
  with assms(3) obtain code w' where att:
    "example_attempt ext c spec grammarText semantics w = (Inr code, w')"
    and wr: "cache_writable w (cache_file ''example''
           (example_cache_input spec grammarText semantics))"
    by (cases "example_attempt ext c spec grammarText semantics w") auto
  with None assms(4) have "e = code" and "w1 = w'"
    by (simp_all add: generateExampleProgram_def)
  moreover from att wr assms(1,2) have "map_option entry_output
      (getCached c ''example'' (example_cache_input spec grammarText semantics) w') = Some code"
    by (auto simp: example_attempt_def call_stream_def getCached_def saveCache_def
        split: sum.splits)
  ultimately show ?thesis
    by (auto simp: generateExampleProgram_def)
qed

lemma generateInterpreter_hit_again:
  assumes "READ_FROM_CACHE c" and "WRITE_TO_CACHE c"
    and "getCached c ''interpreter'' (interpreter_cache_input grammarText schema semantics) w \<noteq>
           None \<or>
         cache_writable w (cache_file ''interpreter''
           (interpreter_cache_input grammarText schema semantics))"
    and "generateInterpreter ext c grammarText schema semantics w = (Inr code, w1)"
  shows "generateInterpreter ext2 c grammarText schema semantics w1 = (Inr code, w1)"
proof (cases "getCached c ''interpreter'' (interpreter_cache_input grammarText schema semantics) w")
  case (Some entry)
  with assms(4) show ?thesis
    by (auto simp: generateInterpreter_def)
next
  case None
  with assms have "map_option entry_output
      (getCached c ''interpreter'' (interpreter_cache_input grammarText schema semantics) w1) =
      Some code"
    by (auto simp: generateInterpreter_def call_response_def getCached_def saveCache_def
        split: if_splits sum.splits prod.splits)
  then show ?thesis
    by (auto simp: generateInterpreter_def)
qed

lemma calc_grammar_accepted: "grammar_text_of (Inr [TextEvent calc_grammar]) = Inr calc_grammar"
  by (simp add: grammar_text_of_def calc_grammar_def trim_def is_space_def validate_grammar_def
      match_mismatched_def match_alternative_def tail_ok_def Let_def)

lemma READ_reading_ctx: "READ_FROM_CACHE reading_ctx"
  by (simp add: READ_FROM_CACHE_def reading_ctx_def)

lemma WRITE_reading_ctx: "WRITE_TO_CACHE reading_ctx"
  by (simp add: WRITE_TO_CACHE_def reading_ctx_def)

lemma WRITE_plain_ctx: "WRITE_TO_CACHE plain_ctx"
  by (simp add: WRITE_TO_CACHE_def plain_ctx_def)

lemma not_READ_plain_ctx: "\<not> READ_FROM_CACHE plain_ctx"
  by (simp add: READ_FROM_CACHE_def plain_ctx_def)

lemma WRITE_writing_ctx: "WRITE_TO_CACHE writing_ctx"
  by (simp add: WRITE_TO_CACHE_def writing_ctx_def)

lemma not_READ_writing_ctx: "\<not> READ_FROM_CACHE writing_ctx"
  by (simp add: READ_FROM_CACHE_def writing_ctx_def)

lemma getCached_writing: "getCached writing_ctx type input w = None"
  by (simp add: getCached_def not_READ_writing_ctx)

lemma getCached_fresh: "getCached c type input fresh_world = None"
  by (simp add: getCached_def fresh_world_def)

lemma grammar_loop_attempt_success:
  assumes "attempts < maxRetries"
    and "grammar_text_of (create_stream ext (length (requests w))
           (grammar_request c spec errs)) = Inr g"
  shows "grammar_loop ext c spec maxRetries attempts errs w =
           (Inr g, saveCache c ''grammar'' (grammar_cache_input spec) g
              (w\<lparr>requests := requests w @ [grammar_request c spec errs]\<rparr>))"
  using assms
  by (subst grammar_loop.simps) (simp add: grammar_attempt_def call_stream_def)

lemma requests_saveCache: "requests (saveCache c type input out w) = requests w"
  by (simp add: saveCache_def)

lemma first_grammar:
  "generateGrammar (streaming_only (always_replies calc_grammar)) c ''calc'' 3 fresh_world =
    (Inr calc_grammar,
     saveCache c ''grammar'' (grammar_cache_input ''calc'') calc_grammar
       (fresh_world\<lparr>requests := [grammar_request c ''calc'' []]\<rparr>))"
proof -
  have "grammar_text_of (create_stream (streaming_only (always_replies calc_grammar))
      (length (requests fresh_world)) (grammar_request c ''calc'' [])) = Inr calc_grammar"
    by (simp add: streaming_only_def always_replies_def calc_grammar_accepted)
  from grammar_loop_attempt_success [OF _ this, of 0 3] show ?thesis
    by (simp add: generateGrammar_def getCached_fresh) (simp add: fresh_world_def)
qed

lemma second_grammar_writing:
  "requests (snd (generateGrammar (streaming_only (always_replies calc_grammar)) writing_ctx
      ''calc'' 3
      (saveCache writing_ctx ''grammar'' (grammar_cache_input ''calc'') calc_grammar
         (fresh_world\<lparr>requests := [grammar_request writing_ctx ''calc'' []]\<rparr>)))) =
   [grammar_request writing_ctx ''calc'' [], grammar_request writing_ctx ''calc'' []]"
proof -
  let ?w1 = "saveCache writing_ctx ''grammar'' (grammar_cache_input ''calc'') calc_grammar
         (fresh_world\<lparr>requests := [grammar_request writing_ctx ''calc'' []]\<rparr>)"
  have "grammar_text_of (create_stream (streaming_only (always_replies calc_grammar))
      (length (requests ?w1)) (grammar_request writing_ctx ''calc'' [])) = Inr calc_grammar"
    by (simp add: streaming_only_def always_replies_def calc_grammar_accepted)
  from grammar_loop_attempt_success [OF _ this, of 0 3] show ?thesis
    by (simp add: generateGrammar_def getCached_writing requests_saveCache)
qed

text \<open>With reads and writes on and a cache directory that cannot be written, the result of
  the first call is not stored: the next call asks the service again.\<close>

lemma getCached_unwritable: "getCached c type input (unwritable_world\<lparr>requests := rs\<rparr>) = None"
  by (simp add: getCached_def unwritable_world_def fresh_world_def)

lemma saveCache_unwritable:
  "saveCache c type input out (unwritable_world\<lparr>requests := rs\<rparr>) =
     unwritable_world\<lparr>requests := rs\<rparr>"
  by (simp add: saveCache_def unwritable_world_def fresh_world_def)

lemma unwritable_grammar_twice:
  "generateGrammar (streaming_only (always_replies calc_grammar)) reading_ctx ''calc'' 3
     unwritable_world =
     (Inr calc_grammar,
      unwritable_world\<lparr>requests := [grammar_request reading_ctx ''calc'' []]\<rparr>) \<and>
   generateGrammar (streaming_only (always_replies calc_grammar)) reading_ctx ''calc'' 3
     (unwritable_world\<lparr>requests := [grammar_request reading_ctx ''calc'' []]\<rparr>) =
     (Inr calc_grammar,
      unwritable_world\<lparr>requests :=
        [grammar_request reading_ctx ''calc'' [], grammar_request reading_ctx ''calc'' []]\<rparr>)"
proof -
  have reply: "\<And>w. grammar_text_of (create_stream (streaming_only (always_replies calc_grammar))
      (length (requests w)) (grammar_request reading_ctx ''calc'' [])) = Inr calc_grammar"
    by (simp add: streaming_only_def always_replies_def calc_grammar_accepted)
  have u: "unwritable_world = unwritable_world\<lparr>requests := []\<rparr>"
    by (simp add: unwritable_world_def fresh_world_def)
  have "generateGrammar (streaming_only (always_replies calc_grammar)) reading_ctx ''calc'' 3
     (unwritable_world\<lparr>requests := []\<rparr>) =
     (Inr calc_grammar,
      unwritable_world\<lparr>requests := [grammar_request reading_ctx ''calc'' []]\<rparr>)"
    using grammar_loop_attempt_success [OF _ reply, of 0 3 "unwritable_world\<lparr>requests := []\<rparr>"]
    by (simp add: generateGrammar_def getCached_unwritable saveCache_unwritable)
  moreover have "generateGrammar (streaming_only (always_replies calc_grammar)) reading_ctx
     ''calc'' 3 (unwritable_world\<lparr>requests := [grammar_request reading_ctx ''calc'' []]\<rparr>) =
     (Inr calc_grammar,
      unwritable_world\<lparr>requests :=
        [grammar_request reading_ctx ''calc'' [], grammar_request reading_ctx ''calc'' []]\<rparr>)"
    using grammar_loop_attempt_success [OF _ reply, of 0 3
        "unwritable_world\<lparr>requests := [grammar_request reading_ctx ''calc'' []]\<rparr>"]
    by (simp add: generateGrammar_def getCached_unwritable saveCache_unwritable)
  ultimately show ?thesis
    using u by simp
qed

lemma first_example:
  "generateExampleProgram (streaming_only (always_replies ''1+2'')) reading_ctx ''calc''
     calc_grammar ''evaluate'' fresh_world =
    (''1+2'',
     saveCache reading_ctx ''example'' (example_cache_input ''calc'' calc_grammar ''evaluate'')
       ''1+2''
       (fresh_world\<lparr>requests :=
          [example_request reading_ctx ''calc'' calc_grammar ''evaluate'']\<rparr>))"
  by (simp add: generateExampleProgram_def getCached_fresh example_attempt_def call_stream_def
      streaming_only_def always_replies_def example_text_of_def trim_def is_space_def)
     (simp add: fresh_world_def)

lemma first_interpreter:
  "generateInterpreter (responding_only seven) reading_ctx calc_grammar
     (extractASTSchema calc_grammar) ''evaluate'' fresh_world =
    (Inr (prelude @ [NL] @ seven),
     saveCache reading_ctx ''interpreter''
       (interpreter_cache_input calc_grammar (extractASTSchema calc_grammar) ''evaluate'')
       (prelude @ [NL] @ seven)
       (fresh_world\<lparr>requests := [plain_request reading_ctx interpreter_instructions
          (interpreter_prompt calc_grammar (extractASTSchema calc_grammar) ''evaluate'')]\<rparr>))"
  by (simp add: generateInterpreter_def getCached_fresh call_response_def responding_only_def
      response_code_def reading_ctx_def seven_def)
     (simp add: fresh_world_def)

text \<open>With reads and writes on, an example generation that fails is not cached: the next
  call asks the service again.\<close>

lemma failed_example_twice:
  "generateExampleProgram (streaming_only (fails_then_replies ''overloaded'' ''1+2'')) reading_ctx
     ''calc'' calc_grammar ''evaluate'' fresh_world =
     (example_fallback ''calc'',
      fresh_world\<lparr>requests :=
        [example_request reading_ctx ''calc'' calc_grammar ''evaluate'']\<rparr>) \<and>
   fst (generateExampleProgram (streaming_only (fails_then_replies ''overloaded'' ''1+2''))
     reading_ctx ''calc'' calc_grammar ''evaluate''
     (fresh_world\<lparr>requests :=
        [example_request reading_ctx ''calc'' calc_grammar ''evaluate'']\<rparr>)) = ''1+2'' \<and>
   requests (snd (generateExampleProgram
     (streaming_only (fails_then_replies ''overloaded'' ''1+2''))
     reading_ctx ''calc'' calc_grammar ''evaluate''
     (fresh_world\<lparr>requests :=
        [example_request reading_ctx ''calc'' calc_grammar ''evaluate'']\<rparr>))) =
     [example_request reading_ctx ''calc'' calc_grammar ''evaluate'',
      example_request reading_ctx ''calc'' calc_grammar ''evaluate'']"
  by (simp add: generateExampleProgram_def getCached_def example_attempt_def call_stream_def
      streaming_only_def fails_then_replies_def example_text_of_def trim_def is_space_def
      requests_saveCache fresh_world_def)

text \<open>With reads and writes on, a first call of \<open>generateGrammar\<close> whose first attempt fails
  has called the service twice when it returns.\<close>

lemma retried_grammar:
  "fst (generateGrammar (streaming_only (fails_then_replies ''overloaded'' calc_grammar))
     reading_ctx ''calc'' 3 fresh_world) = Inr calc_grammar \<and>
   requests (snd (generateGrammar (streaming_only (fails_then_replies ''overloaded'' calc_grammar))
     reading_ctx ''calc'' 3 fresh_world)) =
     [grammar_request reading_ctx ''calc'' [],
      grammar_request reading_ctx ''calc'' [''overloaded'']]"
proof -
  let ?ext = "streaming_only (fails_then_replies ''overloaded'' calc_grammar)"
  let ?w1 = "fresh_world\<lparr>requests := requests fresh_world @
      [grammar_request reading_ctx ''calc'' []]\<rparr>"
  have "grammar_text_of (create_stream ?ext (length (requests fresh_world))
      (grammar_request reading_ctx ''calc'' [])) = Inl ''overloaded''"
    by (simp add: streaming_only_def fails_then_replies_def grammar_text_of_def fresh_world_def)
  then have "grammar_attempt ?ext reading_ctx ''calc'' [] fresh_world = (Inl ''overloaded'', ?w1)"
    by (rule grammar_attempt_fail)
  from grammar_loop_failed_attempt [OF _ this, of 0 3]
  have one: "grammar_loop ?ext reading_ctx ''calc'' 3 0 [] fresh_world =
      grammar_loop ?ext reading_ctx ''calc'' 3 (Suc 0) [''overloaded''] ?w1"
    by simp
  have "grammar_text_of (create_stream ?ext (length (requests ?w1))
      (grammar_request reading_ctx ''calc'' [''overloaded''])) = Inr calc_grammar"
    by (simp add: streaming_only_def fails_then_replies_def calc_grammar_accepted
        fresh_world_def)
  from grammar_loop_attempt_success [OF _ this, of "Suc 0" 3] one
  show ?thesis
    by (simp add: generateGrammar_def getCached_fresh requests_saveCache)
       (simp add: fresh_world_def)
qed

section \<open>Facts about cache keys\<close>

lemma replicate_numeral: "replicate (numeral k) x = x # replicate (pred_numeral k) x"
  by (simp add: numeral_eq_Suc)

lemma upt_8: "[0..<8] = [0, 1, 2, 3, 4, 5, 6, 7]"
  by (simp add: upt_rec)

lemmas sha256_eval =
  getCacheKey_def utf8_def QuoteJSONString_def quote_char_def pad_def
  sha256_def hex_def hex32_def hex_digit_def compress_def replicate_numeral upt_8
  H256_def K256_def shift_state_def T1_def T2_def next_w_def add32_def rotr_def shr_def
  not32_def Ch_def Maj_def bsig0_def bsig1_def ssig0_def ssig1_def

text \<open>The SHA-256 of the model on a known input: the digest of \<^verbatim>\<open>abc\<close> of FIPS 180-4.\<close>

lemma sha256_abc:
  "hex (sha256 (utf8 ''abc'')) =
     ''ba7816bf8f01cfea414140de5dae2223b00361a396177a9cb410ff61f20015ad''"
  by (simp add: sha256_eval)

lemma key_in_code_order:
  "getCacheKey ''example'' (example_cache_input ''s'' ''g'' ''m'') =
     ''f048230cfb223668a58733af742111068fefe4f81585e3c02033215432271e58''"
  by (simp add: example_cache_input_def sha256_eval)

lemma key_in_other_order:
  "getCacheKey ''example''
     (JObject [(''grammarText'', JString ''g''), (''spec'', JString ''s''),
               (''semantics'', JString ''m'')]) =
     ''f38ff4ba1e24d8a4e2fae970cebfa4b934e1474783f18acf1daea6f8b95c047f''"
  by (simp add: sha256_eval)

lemma same_fields_same_order:
  assumes "map_of xs = map_of ys" and "map fst xs = map fst ys" and "distinct (map fst xs)"
  shows "xs = ys"
proof (rule nth_equalityI)
  from assms(2) show len: "length xs = length ys"
    by (metis length_map)
  fix i assume i: "i < length xs"
  then have ix: "xs ! i \<in> set xs" by simp
  from i len have iy: "ys ! i \<in> set ys" by simp
  have k: "fst (xs ! i) = fst (ys ! i)"
    using assms(2) i len by (metis nth_map)
  from assms(2,3) have dy: "distinct (map fst ys)" by simp
  have "map_of xs (fst (xs ! i)) = Some (snd (xs ! i))"
    using assms(3) ix by simp
  moreover have "map_of ys (fst (ys ! i)) = Some (snd (ys ! i))"
    using dy iy by simp
  ultimately have "snd (xs ! i) = snd (ys ! i)"
    using assms(1) k by simp
  with k show "xs ! i = ys ! i"
    by (simp add: prod_eq_iff)
qed

lemma reordered_same_map:
  \<open>map_of [(''spec'', JString ''s''), (''grammarText'', JString ''g''),
            (''semantics'', JString ''m'')] =
   map_of [(''grammarText'', JString ''g''), (''spec'', JString ''s''),
            (''semantics'', JString ''m'')]\<close>
  by (rule ext) simp

section \<open>Facts about the compilation stage\<close>

lemma split_at_first_Some:
  assumes "split_at_first pat s = Some (before, after)"
  shows "s = before @ pat @ after"
  using assms
proof (induction s arbitrary: before)
  case Nil
  then show ?case by (simp split: if_splits)
next
  case (Cons c cs)
  show ?case
  proof (cases "prefix pat (c # cs)")
    case True
    with Cons.prems have "before = []" and "after = drop (length pat) (c # cs)"
      by simp_all
    moreover from True have "c # cs = pat @ drop (length pat) (c # cs)"
      by (metis append_eq_conv_conj prefix_def)
    ultimately show ?thesis by simp
  next
    case False
    with Cons.prems obtain b where "split_at_first pat cs = Some (b, after)" and "before = c # b"
      by (auto split: prod.splits)
    with Cons.IH show ?thesis by simp
  qed
qed

lemma split_at_first_None:
  "split_at_first pat s = None \<longleftrightarrow> \<not> sublist pat s"
proof (induction s)
  case Nil
  then show ?case by simp
next
  case (Cons c cs)
  then show ?case
    by (auto simp: sublist_Cons_right)
qed

lemma replace_get_parser_absent:
  assumes "\<not> sublist get_parser_head parserContent"
  shows "replace_get_parser parserContent = parserContent"
  using assms by (simp add: replace_get_parser_def split_at_first_None [symmetric])

lemma replace_get_parser_found:
  assumes "split_at_first get_parser_head parserContent = Some (before, rest)"
    and "split_at_first get_parser_return rest = Some (body, rest2)"
    and "split_at_first ''}'' rest2 = Some (body2, after)"
  shows "replace_get_parser parserContent = before @ newGetParser @ after"
  using assms by (simp add: replace_get_parser_def)

lemma write_error_fix_parser: "write_error (fix_parser pf w) = write_error w"
  by (simp add: fix_parser_def split: option.splits)

lemma write_error_compile_attempt:
  "write_error (snd (compile_attempt ext cmd gf pf g w)) = write_error w"
  by (simp add: compile_attempt_def Let_def write_error_fix_parser
      split: proc_result.splits option.splits)

lemma compile_attempt_Inr:
  assumes "compile_attempt ext cmd gf pf g w = (Inr r, w')"
  shows "r = (gf, pf) \<and> spawns w' = spawns w @ [[cmd, gf, ''-o'', pf]] \<and>
         (\<exists>errorOutput produced.
            lark_js ext (length (spawns w)) [cmd, gf, ''-o'', pf] g = Exit 0 errorOutput produced \<and>
            (\<forall>p. produced = Some p \<longrightarrow>
                 files w' pf =
                   Some (if write_error w pf = None then replace_get_parser p else p)))"
  using assms
  by (auto simp: compile_attempt_def Let_def fix_parser_def
      split: proc_result.splits if_splits option.splits)

lemma compile_loop_Inr:
  assumes "compile_loop ext cmd gf pf g maxRetries attempts lastError w = (Inr r, w')"
  shows "r = (gf, pf) \<and> spawns w' \<noteq> [] \<and> write_error w' = write_error w \<and>
         (\<exists>errorOutput produced.
            lark_js ext (length (spawns w') - 1) (last (spawns w')) g =
              Exit 0 errorOutput produced \<and>
            (\<forall>p. produced = Some p \<longrightarrow>
                 files w' pf =
                   Some (if write_error w pf = None then replace_get_parser p else p)))"
  using assms
proof (induction ext cmd gf pf g maxRetries attempts lastError w rule: compile_loop.induct)
  case (1 ext cmd gf pf g maxRetries attempts lastError w)
  from "1.prems" have lt: "attempts < maxRetries"
    by (subst (asm) compile_loop.simps) (simp split: if_splits option.splits)
  obtain res w1 where att: "compile_attempt ext cmd gf pf g w = (res, w1)"
    by (cases "compile_attempt ext cmd gf pf g w")
  with write_error_compile_attempt [of ext cmd gf pf g w]
  have we: "write_error w1 = write_error w"
    by simp
  show ?case
  proof (cases res)
    case (Inr r')
    with "1.prems" lt att have "r' = r" and "w1 = w'"
      by (subst (asm) compile_loop.simps, simp)+
    with att Inr have "compile_attempt ext cmd gf pf g w = (Inr r, w')" by simp
    from compile_attempt_Inr [OF this] we \<open>w1 = w'\<close> show ?thesis
      by auto
  next
    case (Inl e)
    with "1.prems" lt att
    have "compile_loop ext cmd gf pf g maxRetries (Suc attempts) (Some e) w1 = (Inr r, w')"
      by (subst (asm) compile_loop.simps) simp
    from "1.IH" [OF lt att [symmetric] _ this] Inl
    have "r = (gf, pf) \<and> spawns w' \<noteq> [] \<and> write_error w' = write_error w1 \<and>
         (\<exists>errorOutput produced.
            lark_js ext (length (spawns w') - 1) (last (spawns w')) g =
              Exit 0 errorOutput produced \<and>
            (\<forall>p. produced = Some p \<longrightarrow>
                 files w' pf =
                   Some (if write_error w1 pf = None then replace_get_parser p else p)))"
      by (simp split del: if_split)
    then show ?thesis
      unfolding we .
  qed
qed

text \<open>The error after the last attempt carries the grammar text and the error of that
  attempt, where the output of the compiler is.\<close>

lemma compile_loop_exhausted:
  assumes "compile_attempt ext cmd gf pf g w = (Inl e, w1)"
  shows "compile_loop ext cmd gf pf g (Suc attempts) attempts lastError w =
           (Inl (CompileError
                   (''Grammar compilation failed after '' @ string_of_nat (Suc attempts) @
                    '' attempts. Last error: '' @ err_message e)
                   (Some g) None (Some e)), w1)"
  using assms
  by (subst compile_loop.simps, simp, subst compile_loop.simps, simp)

text \<open>A run of \<open>compileGrammar\<close> into \<^verbatim>\<open>./output\<close> with a compiler that exits with status
  zero at once.\<close>

lemma compile_run:
  "compileGrammar (compiling_only (Some p)) plain_ctx calc_grammar ''./output'' 3 fresh_world =
     (Inr (''output/grammar.lark'', ''output/parser.cjs''),
      fresh_world\<lparr>files := [''output/grammar.lark'' \<mapsto> calc_grammar,
                              ''output/parser.cjs'' \<mapsto> replace_get_parser p],
                   spawns := [ [''lark-js'', ''output/grammar.lark'', ''-o'',
                                ''output/parser.cjs''] ]\<rparr>)"
  by (simp add: compileGrammar_def Let_def larkJsCommand_def plain_ctx_def path_join_examples
        fresh_world_def)
     (subst compile_loop.simps,
      simp add: compile_attempt_def Let_def compiling_only_def fix_parser_def)

lemma expected_layout_rewritten:
  "replace_get_parser parser_expected_layout = parser_data @ newGetParser @ parser_exports"
proof -
  have a: "split_at_first get_parser_head parser_expected_layout =
      Some (parser_data,
        drop (length parser_data + length get_parser_head) parser_expected_layout)"
    by (simp add: parser_expected_layout_def parser_data_def get_parser_head_def)
  have b: "split_at_first get_parser_return
      (drop (length parser_data + length get_parser_head) parser_expected_layout) =
      Some (take 170 (drop (length parser_data + length get_parser_head) parser_expected_layout),
        [NL] @ ''}'' @ parser_exports)"
    by (simp add: parser_expected_layout_def parser_data_def get_parser_head_def
        get_parser_return_def parser_exports_def)
  have c: "split_at_first ''}'' ([NL] @ ''}'' @ parser_exports) = Some ([NL], parser_exports)"
    by simp
  from replace_get_parser_found [OF a b c] show ?thesis .
qed

lemma other_layout_unchanged: "replace_get_parser parser_other_layout = parser_other_layout"
proof -
  have "split_at_first get_parser_head parser_other_layout = None"
    by (simp add: parser_other_layout_def parser_data_def parser_exports_def
        get_parser_head_def)
  then show ?thesis
    by (simp add: replace_get_parser_def)
qed

lemma other_layout_options:
  \<open>sublist ''"strict": false, "ordered_sets": true'' parser_other_layout\<close>
proof -
  have \<open>parser_other_layout =
      ''var DATA = {"options": {"debug": false, '' @
      ''"strict": false, "ordered_sets": true'' @
      drop 77 parser_other_layout\<close>
    by (simp add: parser_other_layout_def parser_data_def)
  then show ?thesis
    by (metis sublist_appendI)
qed

lemma other_layout_call:
  \<open>sublist ''Lark._load_from_dict({data: DATA, memo: MEMO, ...options})'' parser_other_layout\<close>
proof -
  have \<open>parser_other_layout =
      take 124 parser_other_layout @
      ''Lark._load_from_dict({data: DATA, memo: MEMO, ...options})'' @
      drop 182 parser_other_layout\<close>
    by (simp add: parser_other_layout_def parser_data_def)
  then show ?thesis
    by (metis sublist_appendI)
qed

lemma other_layout_no_filter: "\<not> sublist ''filteredData'' parser_other_layout"
proof -
  have "split_at_first ''filteredData'' parser_other_layout = None"
    by (simp add: parser_other_layout_def parser_data_def parser_exports_def)
  then show ?thesis
    by (simp add: split_at_first_None)
qed

text \<open>A run in which the compiler rejects the grammar three times: the error of the call has
  the grammar text and, in the error of the last attempt, what the compiler wrote to its
  error stream.\<close>

lemma failed_compile_run:
  "fst (compileGrammar failing_compiler plain_ctx calc_grammar ''./output'' 3 fresh_world) =
     Inl (CompileError
            ''Grammar compilation failed after 3 attempts. Last error: lark-js exited with code 1''
            (Some calc_grammar) None
            (Some (CompileError ''lark-js exited with code 1'' (Some calc_grammar)
                     (Some ''Unexpected token'') None)))"
proof -
  have one: "string_of_nat (Suc 0) = ''1''"
    by (subst string_of_nat.simps) simp
  have att: "\<And>w. compile_attempt failing_compiler ''lark-js'' ''output/grammar.lark''
      ''output/parser.cjs'' calc_grammar w =
      (Inl (CompileError ''lark-js exited with code 1'' (Some calc_grammar)
              (Some ''Unexpected token'') None),
       w\<lparr>spawns := spawns w @
          [[''lark-js'', ''output/grammar.lark'', ''-o'', ''output/parser.cjs'']]\<rparr>)"
    by (simp add: compile_attempt_def Let_def failing_compiler_def one)
  show ?thesis
    by (simp add: compileGrammar_def Let_def larkJsCommand_def plain_ctx_def path_join_examples
          fresh_world_def)
       (simp add: compile_loop.simps [of _ _ _ _ _ 3] att string_of_nat_3)
qed

section \<open>Facts about schema extraction\<close>


























section \<open>Facts about testing and repair\<close>


lemma retest_fails: "\<exists>msg. fst (retest ext ifile code w) = Inl msg"
  by (simp add: retest_def Let_def split: option.splits)

lemma auto_fix_attempt_fails:
  "\<exists>msg. fst (auto_fix_attempt ext c ifile g schema sem e s w) = Inl msg"
proof (cases "regenerateInterpreterWithFix ext c g schema sem e s w")
  case (Pair r w1)
  show ?thesis
  proof (cases r)
    case (Inl msg)
    with Pair show ?thesis by (simp add: auto_fix_attempt_def)
  next
    case (Inr code)
    with Pair retest_fails [of ext ifile code w1] show ?thesis
      by (simp add: auto_fix_attempt_def)
  qed
qed



lemma auto_fix_loop_no_success:
  assumes "auto_fix_loop ext c ifile g schema sem e s maxRetries attempt w = (Returned r, w')"
  shows "\<not> success r"
  using assms
proof (induction ext c ifile g schema sem e s maxRetries attempt w rule: auto_fix_loop.induct)
  case (1 ext c ifile g schema sem e s maxRetries attempt w)
  from "1.prems" have le: "attempt \<le> maxRetries"
    by (subst (asm) auto_fix_loop.simps) (simp split: if_splits)
  obtain x w1 where att: "auto_fix_attempt ext c ifile g schema sem e s w = (x, w1)"
    by (cases "auto_fix_attempt ext c ifile g schema sem e s w")
  with auto_fix_attempt_fails [of ext c ifile g schema sem e s w]
  obtain fixError where x: "x = Inl fixError" by auto
  show ?case
  proof (cases "attempt = maxRetries")
    case True
    with "1.prems" le att x show ?thesis
      by (subst (asm) auto_fix_loop.simps) auto
  next
    case False
    with "1.prems" le att x
    have "auto_fix_loop ext c ifile g schema sem e s maxRetries (Suc attempt) w1 =
        (Returned r, w')"
      by (subst (asm) auto_fix_loop.simps) simp
    from "1.IH" [OF le att [symmetric] x False this] show ?thesis .
  qed
qed

lemma testGeneratedCode_choice:
  assumes "first_test ext w (absolute c parserFile) (absolute c interpreterFile) sampleCode =
             Inl errorMessage"
    and "files w (absolute c interpreterFile) = Some currentInterpreterCode"
    and "promptUser w = Some (choice, w1)"
    and "choice \<noteq> ''1''"
  shows "testGeneratedCode ext c parserFile interpreterFile sampleCode spec grammarText schema
           semantics maxRetries w =
         (if choice = ''2'' then
            auto_fix_loop ext c (absolute c interpreterFile) grammarText schema semantics
              errorMessage sampleCode maxRetries 1 w1
          else if choice = ''3'' then
            (Returned \<lparr>success = False, result = None, error = Some errorMessage,
                       continued = True\<rparr>, w1)
          else (Exited 1, w1))"
  using assms by (subst testGeneratedCode.simps) simp








text \<open>The run of the automatic fix on the broken interpreter, with a service that writes a
  working one.\<close>

lemma broken_first_test:
  "first_test repairing (broken_world lines) (absolute plain_ctx ''out/parser.cjs'')
     (absolute plain_ctx ''out/interpreter.mjs'') ''1+2*3'' = Inl ''Unknown node type: foo''"
  by (simp add: first_test_def absolute_def plain_ctx_def broken_world_def repairing_def
      fresh_world_def broken_body_def seven_def path_join_examples)

lemma broken_file:
  "files (broken_world lines) (absolute plain_ctx ''out/interpreter.mjs'') =
     Some (prelude @ [NL] @ broken_body)"
  by (simp add: absolute_def plain_ctx_def broken_world_def fresh_world_def path_join_examples)

lemma broken_prompt:
  "promptUser (broken_world [line]) = Some (trim line, broken_world [])"
  by (simp add: promptUser_def broken_world_def fresh_world_def)

lemma trim_digit: "trim ''2'' = ''2''"
  by (simp add: trim_def is_space_def)

lemma absolute_interpreter:
  "absolute plain_ctx ''out/interpreter.mjs'' = ''/work/out/interpreter.mjs''"
  by (simp add: absolute_def plain_ctx_def path_join_examples)

lemma auto_fix_run:
  "testGeneratedCode repairing plain_ctx ''out/parser.cjs'' ''out/interpreter.mjs'' ''1+2*3''
     ''calc'' calc_grammar (extractASTSchema calc_grammar) ''evaluate'' 3 (broken_world [''2'']) =
   (Returned \<lparr>success = False, result = None, error = Some ''get_parser is not defined'',
              continued = False\<rparr>,
    (broken_world [])\<lparr>files := (files (broken_world []))
         (''/work/out/interpreter.mjs'' \<mapsto> prelude @ [NL] @ seven),
       requests := [calc_fix_request, calc_fix_request, calc_fix_request]\<rparr>)"
proof -
  have "testGeneratedCode repairing plain_ctx ''out/parser.cjs'' ''out/interpreter.mjs''
      ''1+2*3'' ''calc'' calc_grammar (extractASTSchema calc_grammar) ''evaluate'' 3
      (broken_world [''2'']) =
    auto_fix_loop repairing plain_ctx (absolute plain_ctx ''out/interpreter.mjs'') calc_grammar
      (extractASTSchema calc_grammar) ''evaluate'' ''Unknown node type: foo'' ''1+2*3'' 3 1
      (broken_world [])"
    using testGeneratedCode_choice [OF broken_first_test broken_file broken_prompt,
        of "''2''" "''calc''" calc_grammar "extractASTSchema calc_grammar" "''evaluate''" 3]
    by (simp add: trim_digit)
  also have "\<dots> = (Returned \<lparr>success = False, result = None,
        error = Some ''get_parser is not defined'', continued = False\<rparr>,
      (broken_world [])\<lparr>files := (files (broken_world []))
         (''/work/out/interpreter.mjs'' \<mapsto> prelude @ [NL] @ seven),
       requests := [calc_fix_request, calc_fix_request, calc_fix_request]\<rparr>)"
    unfolding absolute_interpreter
    apply (subst auto_fix_loop.simps)
    apply (simp add: auto_fix_attempt_def regenerateInterpreterWithFix_def call_response_def
        retest_def Let_def response_code_def seven_def repairing_def plain_ctx_def
        broken_world_def fresh_world_def)
    apply (subst auto_fix_loop.simps)
    apply (simp add: auto_fix_attempt_def regenerateInterpreterWithFix_def call_response_def
        retest_def Let_def response_code_def seven_def)
    apply (subst auto_fix_loop.simps)
    apply (simp add: auto_fix_attempt_def regenerateInterpreterWithFix_def call_response_def
        retest_def Let_def response_code_def seven_def calc_fix_request_def plain_ctx_def)
    done
  finally show ?thesis .
qed

section \<open>Properties of schema extraction\<close>


section \<open>Properties of grammar synthesis\<close>




text \<open>
  C10. In an attempt of \<open>generateGrammar\<close> whose stream is read to its end and whose
  accumulated text trims to the empty string, the attempt fails with the error
  \<^verbatim>\<open>Generated grammar is empty\<close>: the attempt returns nothing, leaves the cache as it was,
  and the loop goes on as after any failed attempt. It either throws the final error (when
  this was the last attempt) or starts the next attempt with that message appended to the
  earlier errors, and the instructions of the next attempt then contain the line
  \<^verbatim>\<open>Attempt k: Generated grammar is empty\<close>.
\<close>

theorem empty_grammar_is_failure:
  assumes "create_stream ext (length (requests w)) (grammar_request c spec previousErrors) =
             Inr events"
    and "drain ''Grammar generation failed'' [] events = Inr text"
    and "trim text = []"
    and "attempts < maxRetries"
    and "w1 = w\<lparr>requests := requests w @ [grammar_request c spec previousErrors]\<rparr>"
  shows "grammar_attempt ext c spec previousErrors w = (Inl ''Generated grammar is empty'', w1) \<and>
         cache_dir w1 = cache_dir w \<and>
         grammar_loop ext c spec maxRetries attempts previousErrors w =
           (if Suc attempts \<ge> maxRetries then
              (Inl (''Failed to generate valid grammar after '' @ string_of_nat maxRetries @
                    '' attempts. Last error: Generated grammar is empty''), w1)
            else grammar_loop ext c spec maxRetries (Suc attempts)
                   (previousErrors @ [''Generated grammar is empty'']) w1) \<and>
         sublist (''Attempt '' @ string_of_nat (Suc (length previousErrors)) @
                  '': Generated grammar is empty'' @ [NL])
           (req_instructions
              (grammar_request c spec (previousErrors @ [''Generated grammar is empty''])))"
proof -
  from assms(1-3)
  have "grammar_text_of (create_stream ext (length (requests w))
          (grammar_request c spec previousErrors)) = Inl ''Generated grammar is empty''"
    by (simp add: grammar_text_of_def validate_grammar_def)
  then have att: "grammar_attempt ext c spec previousErrors w =
      (Inl ''Generated grammar is empty'', w1)"
    unfolding assms(5) by (rule grammar_attempt_fail)
  have cache: "cache_dir w1 = cache_dir w"
    by (simp add: assms(5))
  have loop: "grammar_loop ext c spec maxRetries attempts previousErrors w =
           (if Suc attempts \<ge> maxRetries then
              (Inl (exhausted_message maxRetries ''Generated grammar is empty''), w1)
            else grammar_loop ext c spec maxRetries (Suc attempts)
                   (previousErrors @ [''Generated grammar is empty'']) w1)"
    by (rule grammar_loop_failed_attempt [OF assms(4) att])
  have line: "sublist (''Attempt '' @ string_of_nat (Suc (length previousErrors)) @ '': '' @
                  ''Generated grammar is empty'' @ [NL])
           (req_instructions
              (grammar_request c spec (previousErrors @ [''Generated grammar is empty''])))"
    by (rule grammar_instructions_last_error)
  from att cache loop line show ?thesis
    by (simp add: exhausted_message_def)
qed

theorem empty_grammar_is_failure_witness:
  \<open>create_stream (streaming_only three_failures) (length (requests fresh_world))
     (grammar_request plain_ctx ''calc'' []) =
       Inr [TextEvent ''  '', OtherEvent, TextEvent ''\<newline>''] \<and>
   drain ''Grammar generation failed'' [] [TextEvent ''  '', OtherEvent, TextEvent ''\<newline>''] =
     Inr ''  \<newline>'' \<and>
   trim ''  \<newline>'' = [] \<and>
   (0::nat) < 3 \<and>
   grammar_attempt (streaming_only three_failures) plain_ctx ''calc'' [] fresh_world =
     (Inl ''Generated grammar is empty'',
      fresh_world\<lparr>requests := [grammar_request plain_ctx ''calc'' []]\<rparr>) \<and>
   grammar_loop (streaming_only three_failures) plain_ctx ''calc'' 3 0 [] fresh_world =
     grammar_loop (streaming_only three_failures) plain_ctx ''calc'' 3 1
       [''Generated grammar is empty'']
       (fresh_world\<lparr>requests := [grammar_request plain_ctx ''calc'' []]\<rparr>) \<and>
   sublist (''Attempt 1: Generated grammar is empty'' @ [NL])
     (req_instructions (grammar_request plain_ctx ''calc'' [''Generated grammar is empty'']))\<close>
proof -
  have h1: \<open>create_stream (streaming_only three_failures) (length (requests fresh_world))
     (grammar_request plain_ctx ''calc'' []) =
       Inr [TextEvent ''  '', OtherEvent, TextEvent ''\<newline>'']\<close>
    by (simp add: streaming_only_def three_failures_def fresh_world_def)
  have h2: \<open>drain ''Grammar generation failed'' []
      [TextEvent ''  '', OtherEvent, TextEvent ''\<newline>''] = Inr ''  \<newline>''\<close>
    by simp
  have h3: \<open>trim ''  \<newline>'' = []\<close>
    by (simp add: trim_def is_space_def)
  have h4: "(0::nat) < 3" by simp
  have one: "string_of_nat (Suc 0) = ''1''"
    by (subst string_of_nat.simps) simp
  from empty_grammar_is_failure [OF h1 h2 h3 h4 refl] h1 h2 h3
  show ?thesis
    by (simp add: fresh_world_def one)
qed

section \<open>Properties of the local checks\<close>




section \<open>Properties of the cache\<close>

text \<open>
  C1, as amended. With cache reads and cache writes both switched on, each of the three
  cached stages is idempotent once its result is in the cache: if the first call is itself
  a cache hit, or the cache file of the input can be written and the first call produces a
  result to store (\<open>generateGrammar\<close> or \<open>generateInterpreter\<close> returns a result,
  \<open>generateExampleProgram\<close> returns from an attempt that succeeded and not with its
  fallback), then a second call with the same input in the world the first call left is a
  cache hit. It returns the same output and leaves the world as it is, so it makes no call
  to the synthesis service (whatever the service would answer, and whatever the retry
  bound).
\<close>

theorem cache_idempotence:
  assumes "READ_FROM_CACHE c" and "WRITE_TO_CACHE c"
  shows "((getCached c ''grammar'' (grammar_cache_input spec) w \<noteq> None \<or>
           cache_writable w (cache_file ''grammar'' (grammar_cache_input spec))) \<and>
          generateGrammar ext c spec maxRetries w = (Inr g, w1) \<longrightarrow>
            generateGrammar ext2 c spec maxRetries2 w1 = (Inr g, w1)) \<and>
         ((getCached c ''example'' (example_cache_input spec' grammarText semantics) w' \<noteq> None \<or>
           cache_writable w' (cache_file ''example''
             (example_cache_input spec' grammarText semantics)) \<and>
           (\<exists>code. fst (example_attempt ext' c spec' grammarText semantics w') = Inr code)) \<and>
          generateExampleProgram ext' c spec' grammarText semantics w' = (e, w1') \<longrightarrow>
            generateExampleProgram ext2' c spec' grammarText semantics w1' = (e, w1')) \<and>
         ((getCached c ''interpreter''
             (interpreter_cache_input grammarText' schema semantics') w'' \<noteq> None \<or>
           cache_writable w'' (cache_file ''interpreter''
             (interpreter_cache_input grammarText' schema semantics'))) \<and>
          generateInterpreter ext'' c grammarText' schema semantics' w'' = (Inr code, w1'') \<longrightarrow>
            generateInterpreter ext2'' c grammarText' schema semantics' w1'' = (Inr code, w1''))"
proof (intro conjI impI)
  assume "(getCached c ''grammar'' (grammar_cache_input spec) w \<noteq> None \<or>
           cache_writable w (cache_file ''grammar'' (grammar_cache_input spec))) \<and>
          generateGrammar ext c spec maxRetries w = (Inr g, w1)"
  then show "generateGrammar ext2 c spec maxRetries2 w1 = (Inr g, w1)"
    using generateGrammar_hit_again [OF assms] by blast
next
  assume "(getCached c ''example'' (example_cache_input spec' grammarText semantics) w' \<noteq> None \<or>
           cache_writable w' (cache_file ''example''
             (example_cache_input spec' grammarText semantics)) \<and>
           (\<exists>code. fst (example_attempt ext' c spec' grammarText semantics w') = Inr code)) \<and>
          generateExampleProgram ext' c spec' grammarText semantics w' = (e, w1')"
  then show "generateExampleProgram ext2' c spec' grammarText semantics w1' = (e, w1')"
    using generateExampleProgram_hit_again [OF assms] by blast
next
  assume "(getCached c ''interpreter''
             (interpreter_cache_input grammarText' schema semantics') w'' \<noteq> None \<or>
           cache_writable w'' (cache_file ''interpreter''
             (interpreter_cache_input grammarText' schema semantics'))) \<and>
          generateInterpreter ext'' c grammarText' schema semantics' w'' = (Inr code, w1'')"
  then show "generateInterpreter ext2'' c grammarText' schema semantics' w1'' = (Inr code, w1'')"
    using generateInterpreter_hit_again [OF assms] by blast
qed

theorem cache_idempotence_witness:
  "READ_FROM_CACHE reading_ctx \<and> WRITE_TO_CACHE reading_ctx \<and>
   (\<forall>name. cache_writable fresh_world name) \<and>
   generateGrammar (streaming_only (always_replies calc_grammar)) reading_ctx ''calc'' 3
     fresh_world =
     (Inr calc_grammar,
      saveCache reading_ctx ''grammar'' (grammar_cache_input ''calc'') calc_grammar
        (fresh_world\<lparr>requests := [grammar_request reading_ctx ''calc'' []]\<rparr>)) \<and>
   generateGrammar (streaming_only three_failures) reading_ctx ''calc'' 1
     (saveCache reading_ctx ''grammar'' (grammar_cache_input ''calc'') calc_grammar
        (fresh_world\<lparr>requests := [grammar_request reading_ctx ''calc'' []]\<rparr>)) =
     (Inr calc_grammar,
      saveCache reading_ctx ''grammar'' (grammar_cache_input ''calc'') calc_grammar
        (fresh_world\<lparr>requests := [grammar_request reading_ctx ''calc'' []]\<rparr>)) \<and>
   (\<exists>code. fst (example_attempt (streaming_only (always_replies ''1+2'')) reading_ctx ''calc''
      calc_grammar ''evaluate'' fresh_world) = Inr code) \<and>
   generateExampleProgram (streaming_only three_failures) reading_ctx ''calc'' calc_grammar
     ''evaluate''
     (saveCache reading_ctx ''example'' (example_cache_input ''calc'' calc_grammar ''evaluate'')
        ''1+2''
        (fresh_world\<lparr>requests :=
           [example_request reading_ctx ''calc'' calc_grammar ''evaluate'']\<rparr>)) =
     (''1+2'',
      saveCache reading_ctx ''example'' (example_cache_input ''calc'' calc_grammar ''evaluate'')
        ''1+2''
        (fresh_world\<lparr>requests :=
           [example_request reading_ctx ''calc'' calc_grammar ''evaluate'']\<rparr>)) \<and>
   generateInterpreter (streaming_only three_failures) reading_ctx calc_grammar
     (extractASTSchema calc_grammar) ''evaluate''
     (saveCache reading_ctx ''interpreter''
       (interpreter_cache_input calc_grammar (extractASTSchema calc_grammar) ''evaluate'')
       (prelude @ [NL] @ seven)
       (fresh_world\<lparr>requests := [plain_request reading_ctx interpreter_instructions
          (interpreter_prompt calc_grammar (extractASTSchema calc_grammar) ''evaluate'')]\<rparr>)) =
     (Inr (prelude @ [NL] @ seven),
      saveCache reading_ctx ''interpreter''
       (interpreter_cache_input calc_grammar (extractASTSchema calc_grammar) ''evaluate'')
       (prelude @ [NL] @ seven)
       (fresh_world\<lparr>requests := [plain_request reading_ctx interpreter_instructions
          (interpreter_prompt calc_grammar (extractASTSchema calc_grammar) ''evaluate'')]\<rparr>))"
proof -
  note hit = cache_idempotence [OF READ_reading_ctx WRITE_reading_ctx]
  have wr: "\<And>name. cache_writable fresh_world name"
    by (simp add: fresh_world_def)
  note g = hit [THEN conjunct1, THEN mp, OF conjI, OF disjI2, OF wr first_grammar]
  have att: "\<exists>code. fst (example_attempt (streaming_only (always_replies ''1+2'')) reading_ctx
      ''calc'' calc_grammar ''evaluate'' fresh_world) = Inr code"
    by (simp add: example_attempt_def call_stream_def streaming_only_def always_replies_def
        example_text_of_def)
  note e = hit [THEN conjunct2, THEN conjunct1, THEN mp, OF conjI, OF disjI2, OF conjI,
      OF wr att first_example]
  note i = hit [THEN conjunct2, THEN conjunct2, THEN mp, OF conjI, OF disjI2,
      OF wr first_interpreter]
  have wr': "\<forall>name. cache_writable fresh_world name"
    using wr by blast
  show ?thesis
    by (intro conjI READ_reading_ctx WRITE_reading_ctx wr' first_grammar g att e i)
qed

text \<open>
  The claim as stated fails in four ways. With writes on and reads switched off, the second
  call of \<open>generateGrammar\<close> with the same input calls the service again. With reads and
  writes on, an example generation that fails returns the fallback text and stores nothing,
  so the second call asks the service again; a first call of \<open>generateGrammar\<close> whose first
  attempt fails has called the service twice by itself; and when the cache file cannot be
  written the error is swallowed, nothing is stored, and the second call of
  \<open>generateGrammar\<close> asks the service again.
\<close>

theorem cache_idempotence_counterexample:
  "WRITE_TO_CACHE writing_ctx \<and> \<not> READ_FROM_CACHE writing_ctx \<and>
   length (requests (snd (generateGrammar (streaming_only (always_replies calc_grammar))
      writing_ctx ''calc'' 3
      (snd (generateGrammar (streaming_only (always_replies calc_grammar)) writing_ctx
         ''calc'' 3 fresh_world))))) = 2 \<and>
   READ_FROM_CACHE reading_ctx \<and> WRITE_TO_CACHE reading_ctx \<and>
   length (requests (snd (generateExampleProgram
      (streaming_only (fails_then_replies ''overloaded'' ''1+2''))
      reading_ctx ''calc'' calc_grammar ''evaluate''
      (snd (generateExampleProgram (streaming_only (fails_then_replies ''overloaded'' ''1+2''))
         reading_ctx ''calc'' calc_grammar ''evaluate'' fresh_world))))) = 2 \<and>
   length (requests (snd (generateGrammar
      (streaming_only (fails_then_replies ''overloaded'' calc_grammar))
      reading_ctx ''calc'' 3 fresh_world))) = 2 \<and>
   fst (generateGrammar (streaming_only (always_replies calc_grammar)) reading_ctx ''calc'' 3
      unwritable_world) = Inr calc_grammar \<and>
   length (requests (snd (generateGrammar (streaming_only (always_replies calc_grammar))
      reading_ctx ''calc'' 3
      (snd (generateGrammar (streaming_only (always_replies calc_grammar)) reading_ctx
         ''calc'' 3 unwritable_world))))) = 2"
  using second_grammar_writing failed_example_twice retried_grammar unwritable_grammar_twice
  by (simp add: first_grammar WRITE_writing_ctx not_READ_writing_ctx READ_reading_ctx
      WRITE_reading_ctx)

section \<open>Properties of key derivation\<close>

text \<open>
  C2, as amended. For every stage type, two inputs that are logically equal (the same
  fields with the same values) and list their fields in the same insertion order get the
  same cache key. The key is the SHA-256 of the type followed by \<^verbatim>\<open>JSON.stringify(input)\<close>,
  which writes the fields in insertion order, so the order is part of what is hashed.
\<close>

theorem cache_key_stable_in_order:
  assumes "map_of xs = map_of ys"
    and "map fst xs = map fst ys"
    and "distinct (map fst xs)"
  shows "getCacheKey type (JObject xs) = getCacheKey type (JObject ys) \<and>
         getCacheKey type (JObject xs) =
           hex (sha256 (utf8 type @ utf8 (JSON_stringify (JObject xs))))"
  using same_fields_same_order [OF assms] by (simp add: getCacheKey_def)

theorem cache_key_stable_in_order_witness:
  \<open>map_of [(''spec'', JString ''s''), (''grammarText'', JString ''g''),
            (''semantics'', JString ''m'')] =
   map_of [(''spec'', JString ''s''), (''grammarText'', JString ''g''),
            (''semantics'', JString ''m'')] \<and>
   distinct (map fst [(''spec'', JString ''s''), (''grammarText'', JString ''g''),
            (''semantics'', JString ''m'')]) \<and>
   getCacheKey ''example'' (JObject [(''spec'', JString ''s''), (''grammarText'', JString ''g''),
            (''semantics'', JString ''m'')]) =
     hex (sha256 (utf8 ''example'' @
       utf8 ''{"spec":"s","grammarText":"g","semantics":"m"}''))\<close>
proof -
  have d: \<open>distinct (map fst [(''spec'', JString ''s''), (''grammarText'', JString ''g''),
            (''semantics'', JString ''m'')])\<close>
    by simp
  have s: \<open>JSON_stringify (JObject [(''spec'', JString ''s''), (''grammarText'', JString ''g''),
            (''semantics'', JString ''m'')]) = ''{"spec":"s","grammarText":"g","semantics":"m"}''\<close>
    by (simp add: QuoteJSONString_def quote_char_def)
  note k = cache_key_stable_in_order [OF refl refl d, of "''example''", THEN conjunct2]
  have \<open>getCacheKey ''example'' (JObject [(''spec'', JString ''s''),
            (''grammarText'', JString ''g''), (''semantics'', JString ''m'')]) =
     hex (sha256 (utf8 ''example'' @
       utf8 ''{"spec":"s","grammarText":"g","semantics":"m"}''))\<close>
    using k unfolding s .
  then show ?thesis
    by (intro conjI refl d)
qed

text \<open>
  The claim as stated fails: the input of the example stage with its fields in the order of
  the code, and the same fields with the same values in another order, get different keys.
\<close>

theorem cache_key_order_counterexample:
  \<open>map_of [(''spec'', JString ''s''), (''grammarText'', JString ''g''),
            (''semantics'', JString ''m'')] =
   map_of [(''grammarText'', JString ''g''), (''spec'', JString ''s''),
            (''semantics'', JString ''m'')] \<and>
   getCacheKey ''example''
     (JObject [(''spec'', JString ''s''), (''grammarText'', JString ''g''),
               (''semantics'', JString ''m'')]) =
     ''f048230cfb223668a58733af742111068fefe4f81585e3c02033215432271e58'' \<and>
   getCacheKey ''example''
     (JObject [(''grammarText'', JString ''g''), (''spec'', JString ''s''),
               (''semantics'', JString ''m'')]) =
     ''f38ff4ba1e24d8a4e2fae970cebfa4b934e1474783f18acf1daea6f8b95c047f'' \<and>
   getCacheKey ''example''
     (JObject [(''spec'', JString ''s''), (''grammarText'', JString ''g''),
               (''semantics'', JString ''m'')]) \<noteq>
   getCacheKey ''example''
     (JObject [(''grammarText'', JString ''g''), (''spec'', JString ''s''),
               (''semantics'', JString ''m'')])\<close>
  using reordered_same_map key_in_code_order key_in_other_order
  by (simp add: example_cache_input_def)

section \<open>Properties of the compilation stage\<close>

text \<open>
  C5, as amended. Whenever \<open>compileGrammar\<close> returns the two file paths, the compiler run of
  its last attempt has exited with status zero, and the rewrite has been tried on the parser
  file before \<open>compileGrammar\<close> returns: a parser file left by that run holds the rewritten
  text when it can be written back, and is as the compiler left it when it cannot. The
  rewrite replaces the first \<^verbatim>\<open>get_parser\<close> function of the expected shape (from its head to
  the first closing brace after its return statement) by the function that deletes
  \<^verbatim>\<open>strict\<close> and \<^verbatim>\<open>ordered_sets\<close> from a copy of the options; a text without a function
  head of exactly that shape is left as it is.
\<close>

theorem compile_success_rewrites_parser:
  assumes "compileGrammar ext c grammarText outputDir maxRetries w = (Inr paths, w1)"
  shows "paths = (path_join [outputDir, ''grammar.lark''], path_join [outputDir, ''parser.cjs'']) \<and>
         spawns w1 \<noteq> [] \<and>
         (\<exists>errorOutput produced.
            lark_js ext (length (spawns w1) - 1) (last (spawns w1)) grammarText =
              Exit 0 errorOutput produced \<and>
            (\<forall>p. produced = Some p \<longrightarrow>
                 files w1 (path_join [outputDir, ''parser.cjs'']) =
                   Some (if write_error w (path_join [outputDir, ''parser.cjs'']) = None
                         then replace_get_parser p else p))) \<and>
         (\<forall>p before rest body rest2 body2 after.
            split_at_first get_parser_head p = Some (before, rest) \<and>
            split_at_first get_parser_return rest = Some (body, rest2) \<and>
            split_at_first ''}'' rest2 = Some (body2, after) \<longrightarrow>
              p = before @ get_parser_head @ body @ get_parser_return @ body2 @ ''}'' @ after \<and>
              replace_get_parser p = before @ newGetParser @ after) \<and>
         (\<forall>p. \<not> sublist get_parser_head p \<longrightarrow> replace_get_parser p = p)"
proof -
  let ?gf = "path_join [outputDir, ''grammar.lark'']"
  let ?pf = "path_join [outputDir, ''parser.cjs'']"
  let ?w0 = "w\<lparr>files := (files w)(?gf \<mapsto> grammarText)\<rparr>"
  from assms have ok: "write_error w ?gf = None"
    by (simp add: compileGrammar_def Let_def split: option.splits)
  with assms have "compile_loop ext (larkJsCommand c ?w0) ?gf ?pf grammarText maxRetries 0 None
      ?w0 = (Inr paths, w1)"
    by (simp add: compileGrammar_def Let_def)
  from compile_loop_Inr [OF this]
  have run: "paths = (?gf, ?pf) \<and> spawns w1 \<noteq> [] \<and>
         (\<exists>errorOutput produced.
            lark_js ext (length (spawns w1) - 1) (last (spawns w1)) grammarText =
              Exit 0 errorOutput produced \<and>
            (\<forall>p. produced = Some p \<longrightarrow>
                 files w1 ?pf =
                   Some (if write_error w ?pf = None then replace_get_parser p else p)))"
    by (simp split del: if_split)
  have found: "\<forall>p before rest body rest2 body2 after.
            split_at_first get_parser_head p = Some (before, rest) \<and>
            split_at_first get_parser_return rest = Some (body, rest2) \<and>
            split_at_first ''}'' rest2 = Some (body2, after) \<longrightarrow>
              p = before @ get_parser_head @ body @ get_parser_return @ body2 @ ''}'' @ after \<and>
              replace_get_parser p = before @ newGetParser @ after"
  proof (intro allI impI, elim conjE)
    fix p before rest body rest2 body2 after
    assume a: "split_at_first get_parser_head p = Some (before, rest)"
      and b: "split_at_first get_parser_return rest = Some (body, rest2)"
      and c: "split_at_first ''}'' rest2 = Some (body2, after)"
    from split_at_first_Some [OF a] split_at_first_Some [OF b] split_at_first_Some [OF c]
    have "p = before @ get_parser_head @ body @ get_parser_return @ body2 @ ''}'' @ after"
      by simp
    with replace_get_parser_found [OF a b c]
    show "p = before @ get_parser_head @ body @ get_parser_return @ body2 @ ''}'' @ after \<and>
          replace_get_parser p = before @ newGetParser @ after"
      by (intro conjI)
  qed
  have absent: "\<forall>p. \<not> sublist get_parser_head p \<longrightarrow> replace_get_parser p = p"
    using replace_get_parser_absent by blast
  from run found absent show ?thesis
    by (intro conjI) (elim conjE, assumption)+
qed

theorem compile_success_rewrites_parser_witness:
  \<open>compileGrammar (compiling_only (Some parser_expected_layout)) plain_ctx calc_grammar
     ''./output'' 3 fresh_world =
     (Inr (''output/grammar.lark'', ''output/parser.cjs''),
      fresh_world\<lparr>files := [''output/grammar.lark'' \<mapsto> calc_grammar,
                              ''output/parser.cjs'' \<mapsto>
                                parser_data @ newGetParser @ parser_exports],
                   spawns := [ [''lark-js'', ''output/grammar.lark'', ''-o'',
                                ''output/parser.cjs''] ]\<rparr>) \<and>
   lark_js (compiling_only (Some parser_expected_layout)) 0
     [''lark-js'', ''output/grammar.lark'', ''-o'', ''output/parser.cjs''] calc_grammar =
     Exit 0 [] (Some parser_expected_layout) \<and>
   write_error fresh_world ''output/parser.cjs'' = None \<and>
   replace_get_parser parser_expected_layout = parser_data @ newGetParser @ parser_exports\<close>
proof -
  have rw: \<open>replace_get_parser parser_expected_layout =
      parser_data @ newGetParser @ parser_exports\<close>
    by (rule expected_layout_rewritten)
  have run: \<open>compileGrammar (compiling_only (Some parser_expected_layout)) plain_ctx
     calc_grammar ''./output'' 3 fresh_world =
     (Inr (''output/grammar.lark'', ''output/parser.cjs''),
      fresh_world\<lparr>files := [''output/grammar.lark'' \<mapsto> calc_grammar,
                              ''output/parser.cjs'' \<mapsto>
                                replace_get_parser parser_expected_layout],
                   spawns := [ [''lark-js'', ''output/grammar.lark'', ''-o'',
                                ''output/parser.cjs''] ]\<rparr>)\<close>
    by (rule compile_run)
  have we: "write_error fresh_world ''output/parser.cjs'' = None"
    by (simp add: fresh_world_def)
  from compile_success_rewrites_parser [OF run] have
    \<open>\<exists>errorOutput produced.
        lark_js (compiling_only (Some parser_expected_layout)) 0
          [''lark-js'', ''output/grammar.lark'', ''-o'', ''output/parser.cjs''] calc_grammar =
          Exit 0 errorOutput produced\<close>
    by (simp add: fresh_world_def path_join_examples) blast
  then have \<open>lark_js (compiling_only (Some parser_expected_layout)) 0
     [''lark-js'', ''output/grammar.lark'', ''-o'', ''output/parser.cjs''] calc_grammar =
     Exit 0 [] (Some parser_expected_layout)\<close>
    by (simp add: compiling_only_def)
  with run rw we show ?thesis
    by simp
qed

text \<open>
  The claim as stated fails: the compiler exits with status zero and leaves a readable
  parser file that has \<^verbatim>\<open>strict\<close> and \<^verbatim>\<open>ordered_sets\<close> in its options and whose
  \<^verbatim>\<open>get_parser\<close> function is laid out with other spacing. \<open>compileGrammar\<close> returns the
  paths, and the file is as the compiler left it: its \<^verbatim>\<open>get_parser\<close> still passes the data
  with both options, and nothing in it filters them.
\<close>

theorem compile_success_rewrites_parser_counterexample:
  \<open>lark_js (compiling_only (Some parser_other_layout)) 0
     [''lark-js'', ''output/grammar.lark'', ''-o'', ''output/parser.cjs''] calc_grammar =
     Exit 0 [] (Some parser_other_layout) \<and>
   fst (compileGrammar (compiling_only (Some parser_other_layout)) plain_ctx calc_grammar
     ''./output'' 3 fresh_world) = Inr (''output/grammar.lark'', ''output/parser.cjs'') \<and>
   spawns (snd (compileGrammar (compiling_only (Some parser_other_layout)) plain_ctx
     calc_grammar ''./output'' 3 fresh_world)) =
     [ [''lark-js'', ''output/grammar.lark'', ''-o'', ''output/parser.cjs''] ] \<and>
   files (snd (compileGrammar (compiling_only (Some parser_other_layout)) plain_ctx
     calc_grammar ''./output'' 3 fresh_world)) ''output/parser.cjs'' =
     Some parser_other_layout \<and>
   sublist ''"strict": false, "ordered_sets": true'' parser_other_layout \<and>
   sublist ''Lark._load_from_dict({data: DATA, memo: MEMO, ...options})'' parser_other_layout \<and>
   \<not> sublist ''filteredData'' parser_other_layout\<close>
proof -
  have run: \<open>compileGrammar (compiling_only (Some parser_other_layout)) plain_ctx
     calc_grammar ''./output'' 3 fresh_world =
     (Inr (''output/grammar.lark'', ''output/parser.cjs''),
      fresh_world\<lparr>files := [''output/grammar.lark'' \<mapsto> calc_grammar,
                              ''output/parser.cjs'' \<mapsto> replace_get_parser parser_other_layout],
                   spawns := [ [''lark-js'', ''output/grammar.lark'', ''-o'',
                                ''output/parser.cjs''] ]\<rparr>)\<close>
    by (rule compile_run)
  have exit: \<open>lark_js (compiling_only (Some parser_other_layout)) 0
     [''lark-js'', ''output/grammar.lark'', ''-o'', ''output/parser.cjs''] calc_grammar =
     Exit 0 [] (Some parser_other_layout)\<close>
    by (simp add: compiling_only_def)
  from run exit other_layout_unchanged other_layout_options other_layout_call
    other_layout_no_filter
  show ?thesis
    by simp
qed

section \<open>Properties of testing and repair\<close>




text \<open>
  C8. The claim asks that after a regeneration the sample is run again through freshly
  loaded modules, so that the rerun shows what the new interpreter does. In the code a fix
  attempt never gets that far: whatever code was regenerated, the step that follows the
  regeneration ends in an error (the new module does not load, or the reference to
  \<^verbatim>\<open>get_parser\<close> throws). In the run below the service writes an interpreter with which the
  sample gives 7, the interpreter file holds it afterwards, and yet all three attempts fail
  with \<^verbatim>\<open>get_parser is not defined\<close> and the loop reports failure.
\<close>

theorem repair_never_reruns_sample:
  "(\<exists>msg. fst (retest ext ifile fixedCode w) = Inl msg) \<and>
   run_sample repairing (Some parser_with_get_parser) (Some (prelude @ [NL] @ seven))
     ''1+2*3'' = Inr ''7'' \<and>
   testGeneratedCode repairing plain_ctx ''out/parser.cjs'' ''out/interpreter.mjs'' ''1+2*3''
     ''calc'' calc_grammar (extractASTSchema calc_grammar) ''evaluate'' 3 (broken_world [''2'']) =
   (Returned \<lparr>success = False, result = None, error = Some ''get_parser is not defined'',
              continued = False\<rparr>,
    (broken_world [])\<lparr>files := (files (broken_world []))
         (''/work/out/interpreter.mjs'' \<mapsto> prelude @ [NL] @ seven),
       requests := [calc_fix_request, calc_fix_request, calc_fix_request]\<rparr>)"
proof -
  have "run_sample repairing (Some parser_with_get_parser) (Some (prelude @ [NL] @ seven))
     ''1+2*3'' = Inr ''7''"
    by (simp add: repairing_def)
  with retest_fails [of ext ifile fixedCode w] auto_fix_run show ?thesis
    by (intro conjI)
qed

text \<open>
  C9, as amended. At the main prompt after a failed first test the answer of the operator
  is read with its leading and trailing white space removed. Every line whose trimmed text
  is other than \<^verbatim>\<open>1\<close>, \<^verbatim>\<open>2\<close> and \<^verbatim>\<open>3\<close> (the empty line and any unrecognised text among
  them) ends the process at once with exit status 1: nothing is regenerated and no file is
  written, only the line is consumed.
\<close>

theorem abort_is_catch_all:
  assumes "first_test ext w (absolute c parserFile) (absolute c interpreterFile) sampleCode =
             Inl errorMessage"
    and "files w (absolute c interpreterFile) = Some currentInterpreterCode"
    and "answers w = line # rest"
    and "trim line \<noteq> ''1''" and "trim line \<noteq> ''2''" and "trim line \<noteq> ''3''"
  shows "testGeneratedCode ext c parserFile interpreterFile sampleCode spec grammarText schema
           semantics maxRetries w = (Exited 1, w\<lparr>answers := rest\<rparr>)"
proof -
  from assms(3) have "promptUser w = Some (trim line, w\<lparr>answers := rest\<rparr>)"
    by (simp add: promptUser_def)
  from testGeneratedCode_choice [OF assms(1,2) this assms(4)] assms(5,6) show ?thesis
    by simp
qed

theorem abort_is_catch_all_witness:
  "first_test repairing (broken_world [''abort'']) (absolute plain_ctx ''out/parser.cjs'')
     (absolute plain_ctx ''out/interpreter.mjs'') ''1+2*3'' = Inl ''Unknown node type: foo'' \<and>
   files (broken_world [''abort'']) (absolute plain_ctx ''out/interpreter.mjs'') =
     Some (prelude @ [NL] @ broken_body) \<and>
   answers (broken_world [''abort'']) = [''abort''] \<and>
   trim ''abort'' = ''abort'' \<and>
   testGeneratedCode repairing plain_ctx ''out/parser.cjs'' ''out/interpreter.mjs'' ''1+2*3''
     ''calc'' calc_grammar (extractASTSchema calc_grammar) ''evaluate'' 3
     (broken_world [''abort'']) = (Exited 1, broken_world []) \<and>
   answers (broken_world [ [] ]) = [ [] ] \<and>
   trim [] = [] \<and>
   testGeneratedCode repairing plain_ctx ''out/parser.cjs'' ''out/interpreter.mjs'' ''1+2*3''
     ''calc'' calc_grammar (extractASTSchema calc_grammar) ''evaluate'' 3
     (broken_world [ [] ]) = (Exited 1, broken_world [])"
proof -
  have a: "\<And>lines. answers (broken_world lines) = lines"
    and r: "\<And>lines. (broken_world lines)\<lparr>answers := []\<rparr> = broken_world []"
    by (simp_all add: broken_world_def fresh_world_def)
  have t: "trim ''abort'' = ''abort''" and t': "trim [] = []"
    by (simp_all add: trim_def is_space_def)
  have d: "trim ''abort'' \<noteq> ''1''" "trim ''abort'' \<noteq> ''2''" "trim ''abort'' \<noteq> ''3''"
    and d': "trim [] \<noteq> ''1''" "trim [] \<noteq> ''2''" "trim [] \<noteq> ''3''"
    unfolding t t' by simp_all
  note run = abort_is_catch_all [where spec = "''calc''" and grammarText = calc_grammar
      and schema = "extractASTSchema calc_grammar" and semantics = "''evaluate''"
      and maxRetries = 3, OF broken_first_test broken_file a [of "[''abort'']"] d, unfolded r]
  note run' = abort_is_catch_all [where spec = "''calc''" and grammarText = calc_grammar
      and schema = "extractASTSchema calc_grammar" and semantics = "''evaluate''"
      and maxRetries = 3, OF broken_first_test broken_file a [of "[[]]"] d', unfolded r]
  show ?thesis
    by (intro conjI broken_first_test broken_file a t t' run run')
qed

text \<open>
  The claim as stated fails: the answer \<^verbatim>\<open>3\<close> typed with a space before and after it is not
  exactly \<^verbatim>\<open>3\<close> (nor \<^verbatim>\<open>1\<close> or \<^verbatim>\<open>2\<close>), and the process does not exit: \<open>testGeneratedCode\<close>
  returns the result of the choice to continue.
\<close>

theorem abort_is_catch_all_counterexample:
  "'' 3 '' \<noteq> ''1'' \<and> '' 3 '' \<noteq> ''2'' \<and> '' 3 '' \<noteq> ''3'' \<and>
   first_test repairing (broken_world ['' 3 '']) (absolute plain_ctx ''out/parser.cjs'')
     (absolute plain_ctx ''out/interpreter.mjs'') ''1+2*3'' = Inl ''Unknown node type: foo'' \<and>
   files (broken_world ['' 3 '']) (absolute plain_ctx ''out/interpreter.mjs'') =
     Some (prelude @ [NL] @ broken_body) \<and>
   answers (broken_world ['' 3 '']) = ['' 3 ''] \<and>
   testGeneratedCode repairing plain_ctx ''out/parser.cjs'' ''out/interpreter.mjs'' ''1+2*3''
     ''calc'' calc_grammar (extractASTSchema calc_grammar) ''evaluate'' 3
     (broken_world ['' 3 '']) =
     (Returned \<lparr>success = False, result = None, error = Some ''Unknown node type: foo'',
                continued = True\<rparr>, broken_world [])"
proof -
  have t: "trim '' 3 '' = ''3''"
    by (simp add: trim_def is_space_def)
  have a: "answers (broken_world ['' 3 '']) = ['' 3 '']"
    by (simp add: broken_world_def fresh_world_def)
  have run: "testGeneratedCode repairing plain_ctx ''out/parser.cjs'' ''out/interpreter.mjs''
     ''1+2*3'' ''calc'' calc_grammar (extractASTSchema calc_grammar) ''evaluate'' 3
     (broken_world ['' 3 '']) =
     (Returned \<lparr>success = False, result = None, error = Some ''Unknown node type: foo'',
                continued = True\<rparr>, broken_world [])"
    using testGeneratedCode_choice [OF broken_first_test broken_file broken_prompt,
        of "'' 3 ''" "''calc''" calc_grammar "extractASTSchema calc_grammar" "''evaluate''" 3]
    by (simp add: t)
  have d: "'' 3 '' \<noteq> ''1''" "'' 3 '' \<noteq> ''2''" "'' 3 '' \<noteq> ''3''"
    by simp_all
  show ?thesis
    by (intro conjI d broken_first_test broken_file a run)
qed

end
